theory Spec2Isabelle
  imports Main "HOL-Library.Word" "HOL-Library.Char_ord" "HOL-Library.List_Lexorder"
begin

section \<open>De-duplication cache (dedup.cpp)\<close>

text \<open>
  \<^verbatim>\<open>DedupImpl\<close> keeps a FIFO queue of (timestamp, hash) pairs and a hash set.
  Timestamps are \<^verbatim>\<open>uint32_t\<close> milliseconds since construction, hashes are
  \<^verbatim>\<open>uint64_t\<close>. The clock reading and \<^verbatim>\<open>std::hash<std::string>\<close> (standard library,
  not part of the repository) are inputs of the model: every operation takes the
  timestamp it would have read, and the hash function is a parameter.
\<close>

type_synonym time_t = "32 word"
type_synonym hash_t = "64 word"
type_synonym payload = "8 word list"

datatype PacketStatus = NEW_PACKET_OR_TIMED_OUT | ALREADY_EXISTS_IN_BUFFER

record DedupImpl =
  time_hash_queue :: "(time_t \<times> hash_t) list"
  packet_hash_set :: "hash_t set"

definition DedupImpl_new :: DedupImpl where
  "DedupImpl_new = \<lparr>time_hash_queue = [], packet_hash_set = {}\<rparr>"

text \<open>
  The clean-up loop of \<^verbatim>\<open>DedupImpl::check_packet\<close>: while the queue is not empty and
  \<^verbatim>\<open>timestamp > front.first + dedup_period_ms\<close> (32-bit unsigned arithmetic), erase the
  front hash from the set and pop the front.
\<close>

fun expire_entries ::
  "time_t \<Rightarrow> time_t \<Rightarrow> (time_t \<times> hash_t) list \<Rightarrow> hash_t set
    \<Rightarrow> (time_t \<times> hash_t) list \<times> hash_t set" where
  "expire_entries timestamp period [] S = ([], S)"
| "expire_entries timestamp period ((t0, h) # q) S =
     (if timestamp > t0 + period then expire_entries timestamp period q (S - {h})
      else ((t0, h) # q, S))"

definition DedupImpl_check_packet ::
  "(payload \<Rightarrow> hash_t) \<Rightarrow> time_t \<Rightarrow> payload \<Rightarrow> time_t \<Rightarrow> DedupImpl \<Rightarrow> bool \<times> DedupImpl" where
  "DedupImpl_check_packet hash_fn timestamp buffer dedup_period_ms impl =
     (case expire_entries timestamp dedup_period_ms (time_hash_queue impl) (packet_hash_set impl) of
        (q, S) \<Rightarrow>
          let hash = hash_fn buffer in
          if hash \<notin> S
          then (True, \<lparr>time_hash_queue = q @ [(timestamp, hash)], packet_hash_set = insert hash S\<rparr>)
          else (False, \<lparr>time_hash_queue = q, packet_hash_set = S\<rparr>))"

text \<open>
  \<^verbatim>\<open>Dedup\<close> owns the period and a \<^verbatim>\<open>unique_ptr<DedupImpl>\<close>, which is null after the
  object has been moved from.
\<close>

record Dedup =
  dedup_period_ms :: time_t
  impl :: "DedupImpl option"

definition Dedup_new :: "time_t \<Rightarrow> Dedup" where
  "Dedup_new period = \<lparr>dedup_period_ms = period, impl = Some DedupImpl_new\<rparr>"

definition set_dedup_period :: "time_t \<Rightarrow> Dedup \<Rightarrow> Dedup" where
  "set_dedup_period period d = d\<lparr>dedup_period_ms := period\<rparr>"

definition Dedup_check_packet ::
  "(payload \<Rightarrow> hash_t) \<Rightarrow> time_t \<Rightarrow> payload \<Rightarrow> Dedup \<Rightarrow> PacketStatus \<times> Dedup" where
  "Dedup_check_packet hash_fn timestamp buffer d =
     (if dedup_period_ms d = 0 then (NEW_PACKET_OR_TIMED_OUT, d)
      else case impl d of
        None \<Rightarrow> (NEW_PACKET_OR_TIMED_OUT, d)
      | Some i \<Rightarrow>
          (case DedupImpl_check_packet hash_fn timestamp buffer (dedup_period_ms d) i of
             (True, i') \<Rightarrow> (NEW_PACKET_OR_TIMED_OUT, d\<lparr>impl := Some i'\<rparr>)
           | (False, i') \<Rightarrow> (ALREADY_EXISTS_IN_BUFFER, d\<lparr>impl := Some i'\<rparr>)))"

text \<open>A sequence of checks, each with the clock reading it sees, and their results in order.\<close>

fun check_packets ::
  "(payload \<Rightarrow> hash_t) \<Rightarrow> Dedup \<Rightarrow> (time_t \<times> payload) list \<Rightarrow> PacketStatus list \<times> Dedup" where
  "check_packets hash_fn d [] = ([], d)"
| "check_packets hash_fn d ((t, p) # tr) =
     (case Dedup_check_packet hash_fn t p d of
        (r, d') \<Rightarrow> (case check_packets hash_fn d' tr of (rs, d'') \<Rightarrow> (r # rs, d'')))"

text \<open>
  The (timestamp, hash) pairs that a run of checks put into the cache: one for every check
  that answered \<^verbatim>\<open>NEW_PACKET_OR_TIMED_OUT\<close>.
\<close>

definition inserted ::
  "(payload \<Rightarrow> hash_t) \<Rightarrow> (time_t \<times> payload) list \<Rightarrow> PacketStatus list \<Rightarrow> (time_t \<times> hash_t) list" where
  "inserted hash_fn tr rs =
     map (\<lambda>(tp, r). (fst tp, hash_fn (snd tp)))
       (filter (\<lambda>(tp, r). r = NEW_PACKET_OR_TIMED_OUT) (zip tr rs))"

text \<open>An entry stamped \<open>t0\<close> is still retained at time \<open>t\<close>: the loop condition is false.\<close>

definition retained :: "time_t \<Rightarrow> time_t \<Rightarrow> time_t \<times> hash_t \<Rightarrow> bool" where
  "retained t period e = (\<not> t > fst e + period)"

text \<open>Clock readings that do not decrease and stay below the 32-bit wrap with the period added.\<close>

definition clock_ok :: "time_t \<Rightarrow> time_t list \<Rightarrow> bool" where
  "clock_ok period ts = (sorted ts \<and> list_all (\<lambda>t. unat t + unat period < 2 ^ 32) ts)"

text \<open>
  The state reached by a run of checks: the queue holds exactly the inserted entries the
  last clean-up retained, and the set holds exactly the hashes of the queue, each once.
\<close>

definition cache_inv ::
  "(payload \<Rightarrow> hash_t) \<Rightarrow> time_t \<Rightarrow> (time_t \<times> payload) list \<Rightarrow> PacketStatus list \<Rightarrow> Dedup \<Rightarrow> bool" where
  "cache_inv hash_fn P tr rs d =
     (dedup_period_ms d = P \<and> length rs = length tr \<and>
      (\<exists>i. impl d = Some i \<and>
         time_hash_queue i = filter (retained (last (0 # map fst tr)) P) (inserted hash_fn tr rs) \<and>
         packet_hash_set i = snd ` set (time_hash_queue i) \<and>
         distinct (map snd (time_hash_queue i))))"

text \<open>
  The time \<open>ti\<close> lies in the closed window \<open>[t - period, t]\<close> (times read as unsigned
  numbers).
\<close>

definition in_window :: "time_t \<Rightarrow> time_t \<Rightarrow> time_t \<Rightarrow> bool" where
  "in_window period t ti = (unat t \<le> unat ti + unat period \<and> unat ti \<le> unat t)"

text \<open>
  A stand-in for \<^verbatim>\<open>std::hash\<close>, used only to run the model on concrete payloads.
\<close>

definition byte_sum_hash :: "payload \<Rightarrow> hash_t" where
  "byte_sum_hash bs = word_of_nat (sum_list (map unat bs))"

section \<open>Router instance (mainloop.h, mainloop.cpp)\<close>

text \<open>
  The endpoint classes (\<^verbatim>\<open>endpoint.h\<close>, \<^verbatim>\<open>endpoint.cpp\<close>) are not among the sources. The
  router only reads an endpoint's descriptor, name, type, group name, validity and retry
  policy, and appends to its list of group members; these are the fields of the record
  below. Endpoints are identified by their position in \<^verbatim>\<open>g_endpoints\<close>, so the group
  members of an endpoint are positions. What \<^verbatim>\<open>accept_msg\<close> and \<^verbatim>\<open>write_msg\<close> of an endpoint
  return is a parameter of the routing functions.
\<close>

datatype AcceptState = Accepted | Filtered | Rejected

datatype endpoint_type =
  ENDPOINT_TYPE_UART | ENDPOINT_TYPE_UDP | ENDPOINT_TYPE_TCP | ENDPOINT_TYPE_LOG

record Endpoint =
  ep_name :: string
  ep_type :: endpoint_type
  ep_fd :: int
  ep_group_name :: string
  ep_group_members :: "nat list"
  ep_valid :: bool
  ep_retry :: bool

record Timeout =
  timeout_fd :: int
  remove_me :: bool

record Mainloop =
  epollfd :: int
  should_process_tcp_hangups :: bool
  should_exit :: bool
  g_endpoints :: "Endpoint list"
  g_tcp_fd :: int
  timeouts :: "Timeout list"
  msg_dedup :: Dedup
  msg_to_unknown :: "32 word"
  retcode :: int
  tracked_fds :: "(int \<times> string) list"

definition EAGAIN :: int where "EAGAIN = 11"
definition EPIPE :: int where "EPIPE = 32"
definition EBUSY :: int where "EBUSY = 16"
definition EINVAL :: int where "EINVAL = 22"
definition EXIT_FAILURE :: int where "EXIT_FAILURE = 1"

text \<open>
  A default-constructed instance, as \<^verbatim>\<open>create_extension_instance\<close> initialises it (the
  member initialisers of the class, then the explicit assignments).
\<close>

definition Mainloop_new :: Mainloop where
  "Mainloop_new =
     \<lparr>epollfd = - 1, should_process_tcp_hangups = False, should_exit = False,
      g_endpoints = [], g_tcp_fd = - 1, timeouts = [], msg_dedup = Dedup_new 0,
      msg_to_unknown = 0, retcode = - 1, tracked_fds = []\<rparr>"

subsection \<open>Tracked descriptors\<close>

definition track_fd :: "int \<Rightarrow> string \<Rightarrow> Mainloop \<Rightarrow> Mainloop" where
  "track_fd fd description m =
     (if fd < 0 then m
      else m\<lparr>tracked_fds := (fd, description) # filter (\<lambda>p. fst p \<noteq> fd) (tracked_fds m)\<rparr>)"

definition untrack_fd :: "int \<Rightarrow> Mainloop \<Rightarrow> Mainloop" where
  "untrack_fd fd m =
     (if fd < 0 then m else m\<lparr>tracked_fds := filter (\<lambda>p. fst p \<noteq> fd) (tracked_fds m)\<rparr>)"

subsection \<open>Exit request\<close>

text \<open>
  \<^verbatim>\<open>Mainloop::request_exit\<close> on one instance: \<^verbatim>\<open>_retcode = retcode\<close>, then the exit flag is
  stored. The branch on \<^verbatim>\<open>this == &_instance\<close> only chooses a log line.
\<close>

definition Mainloop_request_exit :: "int \<Rightarrow> Mainloop \<Rightarrow> Mainloop" where
  "Mainloop_request_exit rc m = m\<lparr>retcode := rc, should_exit := True\<rparr>"

text \<open>
  The router instances of the process: the static singleton \<^verbatim>\<open>Mainloop::_instance\<close> lives
  at address \<open>primary\<close>, every instance made by \<^verbatim>\<open>create_extension_instance\<close> at an address
  of its own. A method call through a pointer acts on the instance at that address.
\<close>

type_synonym addr = nat
type_synonym instances = "addr \<Rightarrow> Mainloop option"

definition primary :: addr where "primary = 0"

definition request_exit :: "addr \<Rightarrow> int \<Rightarrow> instances \<Rightarrow> instances" where
  "request_exit this rc h =
     (case h this of None \<Rightarrow> h | Some m \<Rightarrow> h(this \<mapsto> Mainloop_request_exit rc m))"

text \<open>
  \<^verbatim>\<open>Mainloop::instance()\<close>: the calling thread's thread-local instance when it is set,
  the singleton otherwise.
\<close>

definition instance_of_thread :: "addr option \<Rightarrow> addr" where
  "instance_of_thread thread_local_instance =
     (case thread_local_instance of Some a \<Rightarrow> a | None \<Rightarrow> primary)"

text \<open>
  \<^verbatim>\<open>create_extension_instance\<close> allocates a fresh instance: an address that holds no
  instance yet and is not the singleton's.
\<close>

definition fresh_addr :: "addr list \<Rightarrow> addr" where
  "fresh_addr used = Suc (fold max used primary)"

definition create_extension_instance :: "addr list \<Rightarrow> instances \<Rightarrow> addr \<times> instances" where
  "create_extension_instance used h = (let a = fresh_addr used in (a, h(a \<mapsto> Mainloop_new)))"

subsection \<open>Opening\<close>

text \<open>\<^verbatim>\<open>Mainloop::open\<close>; \<open>efd\<close> is what \<^verbatim>\<open>epoll_create1\<close> returns.\<close>

definition Mainloop_open :: "int \<Rightarrow> Mainloop \<Rightarrow> int \<times> Mainloop" where
  "Mainloop_open efd m =
     (let m1 = m\<lparr>retcode := - 1\<rparr> in
      if epollfd m1 \<noteq> - 1 then (- EBUSY, m1)
      else let m2 = m1\<lparr>epollfd := efd\<rparr> in
        if efd = - 1 then (- 1, m2)
        else (0, (track_fd efd ''EPOLL'' m2)\<lparr>retcode := 0\<rparr>))"

subsection \<open>Routing\<close>

text \<open>
  What routing does outside the router's own fields: a call of an endpoint's
  \<^verbatim>\<open>write_msg\<close>, and a change of its epoll interest by \<^verbatim>\<open>mod_fd\<close>. Both name the endpoint by
  its position in \<^verbatim>\<open>g_endpoints\<close>.
\<close>

datatype effect = WriteMsg nat | ModFd nat int

definition EPOLLIN :: int where "EPOLLIN = 1"
definition EPOLLOUT :: int where "EPOLLOUT = 4"

text \<open>
  \<^verbatim>\<open>Mainloop::write_msg\<close>: one call of the endpoint's \<^verbatim>\<open>write_msg\<close>; when it returns
  \<^verbatim>\<open>-EAGAIN\<close>, the interest is upgraded to \<^verbatim>\<open>EPOLLIN | EPOLLOUT\<close>.
\<close>

definition Mainloop_write_msg ::
  "(Endpoint \<Rightarrow> 'b \<Rightarrow> int) \<Rightarrow> nat \<Rightarrow> Endpoint \<Rightarrow> 'b \<Rightarrow> int \<times> effect list" where
  "Mainloop_write_msg wr i e buf =
     (let r = wr e buf in
      (r, if r = - EAGAIN then [WriteMsg i, ModFd i (EPOLLIN + EPOLLOUT)] else [WriteMsg i]))"

record route_state =
  rs_unknown :: bool
  rs_hangups :: bool
  rs_effects :: "effect list"

text \<open>The \<^verbatim>\<open>for\<close> loop of \<^verbatim>\<open>route_msg\<close> over the endpoints, from position \<open>i\<close> on.\<close>

fun route_endpoints ::
  "(Endpoint \<Rightarrow> 'b \<Rightarrow> AcceptState) \<Rightarrow> (Endpoint \<Rightarrow> 'b \<Rightarrow> int) \<Rightarrow> 'b \<Rightarrow> nat \<Rightarrow> Endpoint list
    \<Rightarrow> route_state \<Rightarrow> route_state" where
  "route_endpoints acc wr buf i [] s = s"
| "route_endpoints acc wr buf i (e # es) s =
     route_endpoints acc wr buf (Suc i) es
       (case acc e buf of
          Accepted \<Rightarrow>
            (case Mainloop_write_msg wr i e buf of
               (r, fx) \<Rightarrow>
                 s\<lparr>rs_unknown := False,
                   rs_hangups := (if r = - EPIPE then True else rs_hangups s),
                   rs_effects := rs_effects s @ fx\<rparr>)
        | Filtered \<Rightarrow> s\<lparr>rs_unknown := False\<rparr>
        | Rejected \<Rightarrow> s)"

definition route_msg ::
  "(Endpoint \<Rightarrow> 'b \<Rightarrow> AcceptState) \<Rightarrow> (Endpoint \<Rightarrow> 'b \<Rightarrow> int) \<Rightarrow> 'b \<Rightarrow> Mainloop
    \<Rightarrow> Mainloop \<times> effect list" where
  "route_msg acc wr buf m =
     (let s = route_endpoints acc wr buf 0 (g_endpoints m)
                \<lparr>rs_unknown = True, rs_hangups = should_process_tcp_hangups m, rs_effects = []\<rparr>;
          m1 = m\<lparr>should_process_tcp_hangups := rs_hangups s\<rparr>
      in (if rs_unknown s then m1\<lparr>msg_to_unknown := msg_to_unknown m1 + 1\<rparr> else m1,
          rs_effects s))"

text \<open>The positions of the endpoints whose \<^verbatim>\<open>write_msg\<close> was called, in order.\<close>

fun written :: "effect list \<Rightarrow> nat list" where
  "written [] = []"
| "written (WriteMsg i # fx) = i # written fx"
| "written (ModFd i ev # fx) = written fx"

subsection \<open>Adding endpoints\<close>

text \<open>
  The part of \<^verbatim>\<open>Configuration\<close> (\<^verbatim>\<open>config.h\<close>, not among the sources) that the router and the
  extension manager read.
\<close>

datatype udp_mode = Server | Client

record UartEndpointConfig =
  uart_name :: string
  uart_device :: string
  uart_group :: string

record UdpEndpointConfig =
  udp_name :: string
  udp_address :: string
  udp_port :: nat
  udp_mode :: udp_mode
  udp_group :: string

record TcpEndpointConfig =
  tcp_name :: string
  tcp_address :: string
  tcp_port :: nat
  tcp_retry_timeout :: int
  tcp_group :: string

record Configuration =
  conf_tcp_port :: nat
  uart_configs :: "UartEndpointConfig list"
  udp_configs :: "UdpEndpointConfig list"
  tcp_configs :: "TcpEndpointConfig list"
  dedup_period :: nat

definition Configuration_empty :: Configuration where
  "Configuration_empty =
     \<lparr>conf_tcp_port = 0, uart_configs = [], udp_configs = [], tcp_configs = [], dedup_period = 0\<rparr>"

text \<open>
  One of the three creation loops: \<open>setup\<close> is the endpoint's \<^verbatim>\<open>setup\<close> (\<open>None\<close> when it
  fails, which ends \<^verbatim>\<open>add_endpoints\<close> with \<^verbatim>\<open>false\<close>); a created endpoint is appended and its
  descriptor tracked under \<open>tag\<close> and the configured name.
\<close>

fun setup_endpoints ::
  "('c \<Rightarrow> Endpoint option) \<Rightarrow> string \<Rightarrow> 'c list \<Rightarrow> Mainloop \<Rightarrow> bool \<times> Mainloop" where
  "setup_endpoints setup tag [] m = (True, m)"
| "setup_endpoints setup tag (c # cs) m =
     (case setup c of
        None \<Rightarrow> (False, m)
      | Some e \<Rightarrow>
          setup_endpoints setup tag cs
            (track_fd (ep_fd e) (tag @ ep_name e) (m\<lparr>g_endpoints := g_endpoints m @ [e]\<rparr>)))"

text \<open>
  The linking loops of \<^verbatim>\<open>add_endpoints\<close>. For the endpoint at position \<open>i\<close> the inner loop
  visits every position \<open>j\<close> and links it when \<^verbatim>\<open>other != e\<close> and
  \<^verbatim>\<open>e->get_group_name() == e->get_group_name()\<close>: both sides of the comparison read the
  group name of \<open>e\<close>. \<^verbatim>\<open>link_group_member\<close> appends to the members of \<open>e\<close>.
\<close>

definition linked_positions :: "Endpoint list \<Rightarrow> nat \<Rightarrow> nat list" where
  "linked_positions eps i =
     filter (\<lambda>j. j \<noteq> i \<and> ep_group_name (eps ! i) = ep_group_name (eps ! i)) [0..<length eps]"

definition link_grouped_endpoints :: "Endpoint list \<Rightarrow> Endpoint list" where
  "link_grouped_endpoints eps =
     map (\<lambda>i. let e = eps ! i in
            if ep_group_name e = [] then e
            else e\<lparr>ep_group_members := ep_group_members e @ linked_positions eps i\<rparr>)
       [0..<length eps]"

text \<open>
  \<^verbatim>\<open>Mainloop::add_endpoints\<close>: the three creation loops, the linking, the TCP server
  (\<open>tcp_fd\<close> is what \<^verbatim>\<open>tcp_open\<close> returns), the log endpoints the log options ask for
  (\<open>log_eps\<close>, appended after the linking), and the de-duplication period. The sniffer
  system id (a static member of the endpoint class) and the statistics timer are left out.
\<close>

definition add_endpoints ::
  "(UartEndpointConfig \<Rightarrow> Endpoint option) \<Rightarrow> (UdpEndpointConfig \<Rightarrow> Endpoint option)
    \<Rightarrow> (TcpEndpointConfig \<Rightarrow> Endpoint option) \<Rightarrow> int \<Rightarrow> Endpoint list
    \<Rightarrow> Configuration \<Rightarrow> Mainloop \<Rightarrow> bool \<times> Mainloop" where
  "add_endpoints setup_uart setup_udp setup_tcp tcp_fd log_eps config m =
     (case setup_endpoints setup_uart ''UART:'' (uart_configs config) m of
        (False, m1) \<Rightarrow> (False, m1)
      | (True, m1) \<Rightarrow>
     (case setup_endpoints setup_udp ''UDP:'' (udp_configs config) m1 of
        (False, m2) \<Rightarrow> (False, m2)
      | (True, m2) \<Rightarrow>
     (case setup_endpoints setup_tcp ''TCP:'' (tcp_configs config) m2 of
        (False, m3) \<Rightarrow> (False, m3)
      | (True, m3) \<Rightarrow>
          let m4 = m3\<lparr>g_endpoints := link_grouped_endpoints (g_endpoints m3)\<rparr>;
              m5 = (if conf_tcp_port config \<noteq> 0
                    then track_fd tcp_fd ''TCP_SERVER'' (m4\<lparr>g_tcp_fd := tcp_fd\<rparr>) else m4);
              m6 = m5\<lparr>g_endpoints := g_endpoints m5 @ log_eps\<rparr>;
              m7 = (if dedup_period config > 0
                    then m6\<lparr>msg_dedup := set_dedup_period (word_of_nat (dedup_period config)) (msg_dedup m6)\<rparr>
                    else m6)
          in (True, m7))))"

subsection \<open>The event loop\<close>

text \<open>
  What one \<^verbatim>\<open>epoll_wait\<close> returns, with the answers of the handlers the loop calls for
  each event. Handlers are endpoint code; only what the loop itself does with their answers
  is modelled.
\<close>

record pollable_event =
  ev_in :: bool
  ev_out :: bool
  ev_err :: bool
  read_failed_invalid :: bool
  is_critical :: bool
  is_uart :: bool

datatype poll_event = TcpConnection "Endpoint option" | Pollable pollable_event

datatype epoll_result = Interrupted | TimedOut | WaitFailed | Ready "poll_event list"

definition handle_tcp_connection :: "Endpoint option \<Rightarrow> Mainloop \<Rightarrow> Mainloop" where
  "handle_tcp_connection accepted m =
     (case accepted of None \<Rightarrow> m | Some tcp \<Rightarrow> m\<lparr>g_endpoints := g_endpoints m @ [tcp]\<rparr>)"

definition handle_event :: "Mainloop \<Rightarrow> poll_event \<Rightarrow> Mainloop" where
  "handle_event m ev =
     (case ev of
        TcpConnection accepted \<Rightarrow> handle_tcp_connection accepted m
      | Pollable p \<Rightarrow>
          let m1 = (if ev_in p \<and> read_failed_invalid p
                    then m\<lparr>should_process_tcp_hangups := True\<rparr> else m)
          in if ev_err p
             then (if is_critical p then Mainloop_request_exit EXIT_FAILURE m1
                   else if is_uart p then m1
                   else m1\<lparr>should_process_tcp_hangups := True\<rparr>)
             else m1)"

definition process_tcp_hangups :: "Mainloop \<Rightarrow> Mainloop" where
  "process_tcp_hangups m =
     m\<lparr>g_endpoints :=
          filter (\<lambda>e. \<not> (\<not> ep_valid e \<and> ep_type e = ENDPOINT_TYPE_TCP \<and> \<not> ep_retry e))
            (g_endpoints m),
       should_process_tcp_hangups := False\<rparr>"

definition del_timeouts :: "Mainloop \<Rightarrow> Mainloop" where
  "del_timeouts m =
     (fold untrack_fd (map timeout_fd (filter remove_me (timeouts m))) m)
       \<lparr>timeouts := filter (\<lambda>t. \<not> remove_me t) (timeouts m)\<rparr>"

text \<open>
  \<^verbatim>\<open>add_timeout\<close>: \<open>tfd\<close> is what \<^verbatim>\<open>timerfd_create\<close> returns; a negative descriptor leaves
  the list unchanged, as does a refusal of \<^verbatim>\<open>add_fd\<close>, which the same case stands for.
\<close>

definition add_timeout :: "int \<Rightarrow> Mainloop \<Rightarrow> Mainloop" where
  "add_timeout tfd m =
     (if tfd < 0 then m
      else (track_fd tfd ''TIMEOUT'' m)
             \<lparr>timeouts := \<lparr>timeout_fd = tfd, remove_me = False\<rparr> # timeouts m\<rparr>)"

definition loop_body :: "epoll_result \<Rightarrow> Mainloop \<Rightarrow> Mainloop" where
  "loop_body w m =
     (case w of
        Interrupted \<Rightarrow> m
      | TimedOut \<Rightarrow> m
      | WaitFailed \<Rightarrow>
          del_timeouts (if should_process_tcp_hangups m then process_tcp_hangups m else m)
      | Ready evs \<Rightarrow>
          (let m1 = foldl handle_event m evs
           in del_timeouts (if should_process_tcp_hangups m1 then process_tcp_hangups m1 else m1)))"

text \<open>
  The \<^verbatim>\<open>while (!_should_exit)\<close> loop, run against the results of the successive
  \<^verbatim>\<open>epoll_wait\<close> calls. It yields the state in which the loop was left, or \<open>None\<close> when
  the results are used up and the exit flag is still clear (the loop is still running).
\<close>

fun loop_while :: "epoll_result list \<Rightarrow> Mainloop \<Rightarrow> Mainloop option" where
  "loop_while [] m = (if should_exit m then Some m else None)"
| "loop_while (w # ws) m = (if should_exit m then Some m else loop_while ws (loop_body w m))"

text \<open>
  \<^verbatim>\<open>Mainloop::loop\<close>: refuses an instance that is not open, arms the aggregate timer,
  runs the loop, then clears the endpoints and the timers and returns \<^verbatim>\<open>_retcode\<close>.
\<close>

definition Mainloop_loop :: "int \<Rightarrow> epoll_result list \<Rightarrow> Mainloop \<Rightarrow> (int \<times> Mainloop) option" where
  "Mainloop_loop tfd ws m =
     (if epollfd m < 0 then Some (- EINVAL, m)
      else case loop_while ws (add_timeout tfd m) of
        None \<Rightarrow> None
      | Some m1 \<Rightarrow> Some (retcode m1, m1\<lparr>g_endpoints := [], timeouts := []\<rparr>))"

text \<open>
  \<^verbatim>\<open>loop()\<close> called through a pointer: it runs on the instance at that address and leaves
  the others alone; \<open>None\<close> when the address holds no instance or the loop does not end.
\<close>

definition loop_at :: "addr \<Rightarrow> int \<Rightarrow> epoll_result list \<Rightarrow> instances \<Rightarrow> (int \<times> instances) option" where
  "loop_at this tfd ws h =
     (case h this of
        None \<Rightarrow> None
      | Some m \<Rightarrow>
          (case Mainloop_loop tfd ws m of
             None \<Rightarrow> None
           | Some (rc, m') \<Rightarrow> Some (rc, h(this \<mapsto> m'))))"

subsection \<open>Auxiliary notions and concrete inputs\<close>

text \<open>The positions of the endpoints whose \<^verbatim>\<open>accept_msg\<close> returns \<^verbatim>\<open>Accepted\<close> for a frame.\<close>

definition accepting :: "(Endpoint \<Rightarrow> 'b \<Rightarrow> AcceptState) \<Rightarrow> 'b \<Rightarrow> Endpoint list \<Rightarrow> nat list" where
  "accepting acc buf eps = filter (\<lambda>j. acc (eps ! j) buf = Accepted) [0..<length eps]"

text \<open>
  Concrete endpoints, a configuration with two UDP endpoints in different groups, and a
  process with the singleton and one extension instance, to run the model on.
\<close>

definition make_endpoint :: "string \<Rightarrow> string \<Rightarrow> Endpoint" where
  "make_endpoint name grp =
     \<lparr>ep_name = name, ep_type = ENDPOINT_TYPE_UDP, ep_fd = 3, ep_group_name = grp,
      ep_group_members = [], ep_valid = True, ep_retry = False\<rparr>"

definition udp_setup_ok :: "UdpEndpointConfig \<Rightarrow> Endpoint option" where
  "udp_setup_ok c = Some (make_endpoint (udp_name c) (udp_group c))"

definition two_group_config :: Configuration where
  "two_group_config =
     Configuration_empty
       \<lparr>udp_configs :=
          [\<lparr>udp_name = ''A'', udp_address = ''127.0.0.1'', udp_port = 14551, udp_mode = Client,
             udp_group = ''g1''\<rparr>,
           \<lparr>udp_name = ''B'', udp_address = ''127.0.0.1'', udp_port = 14552, udp_mode = Client,
             udp_group = ''g2''\<rparr>]\<rparr>"

definition two_instances :: instances where
  "two_instances = [primary \<mapsto> Mainloop_new\<lparr>epollfd := 3\<rparr>, 1 \<mapsto> Mainloop_new\<lparr>epollfd := 4\<rparr>]"

section \<open>Thread manager\<close>

text \<open>
  Modelled from the spec: the thread manager (\<^verbatim>\<open>ThreadManager.hpp\<close> is not among the
  sources). It hands out numeric thread ids, keeps a state, a liveness flag and a
  cooperative stop flag per thread, and associates attachment strings with ids. Operations
  on an id it does not know raise its exception; an operation that can raise returns the
  exception, if any, together with the manager. Every call is recorded in \<open>tm_calls\<close>, so
  that a theorem can say which calls a controller operation issued. Whether a thread ends
  within the deadline of a bounded join is not decided by the manager itself: it is the
  parameter \<open>joined\<close> of the join.
\<close>

datatype ThreadState = Created | Running | Paused | Stopping | Stopped | Error

datatype tm_call =
  CreateThread nat
| RegisterThread nat string
| StopThread nat
| JoinThread nat nat
| UnregisterThread string
| PauseThread nat
| ResumeThread nat

datatype exn = ThreadManagerException string

record thread_entry =
  th_state :: ThreadState
  th_alive :: bool
  th_stop_requested :: bool

record ThreadManager =
  tm_threads :: "(nat \<times> thread_entry) list"
  tm_attachments :: "(string \<times> nat) list"
  tm_next_id :: nat
  tm_calls :: "tm_call list"

definition ThreadManager_new :: ThreadManager where
  "ThreadManager_new = \<lparr>tm_threads = [], tm_attachments = [], tm_next_id = 1, tm_calls = []\<rparr>"

definition tm_update :: "nat \<Rightarrow> (thread_entry \<Rightarrow> thread_entry) \<Rightarrow> ThreadManager \<Rightarrow> ThreadManager" where
  "tm_update tid f tm =
     tm\<lparr>tm_threads := map (\<lambda>p. if fst p = tid then (fst p, f (snd p)) else p) (tm_threads tm)\<rparr>"

definition tm_log :: "tm_call \<Rightarrow> ThreadManager \<Rightarrow> ThreadManager" where
  "tm_log c tm = tm\<lparr>tm_calls := tm_calls tm @ [c]\<rparr>"

definition not_found :: exn where
  "not_found = ThreadManagerException ''Thread not found''"

definition createThread :: "ThreadManager \<Rightarrow> nat \<times> ThreadManager" where
  "createThread tm =
     (let tid = tm_next_id tm in
      (tid, (tm_log (CreateThread tid) tm)
              \<lparr>tm_threads := tm_threads tm @
                   [(tid, \<lparr>th_state = Running, th_alive = True, th_stop_requested = False\<rparr>)],
               tm_next_id := Suc tid\<rparr>))"

definition tm_registerThread :: "nat \<Rightarrow> string \<Rightarrow> ThreadManager \<Rightarrow> ThreadManager" where
  "tm_registerThread tid attachment tm =
     (tm_log (RegisterThread tid attachment) tm)
       \<lparr>tm_attachments := (attachment, tid) # filter (\<lambda>p. fst p \<noteq> attachment) (tm_attachments tm)\<rparr>"

definition tm_unregisterThread :: "string \<Rightarrow> ThreadManager \<Rightarrow> exn option \<times> ThreadManager" where
  "tm_unregisterThread attachment tm =
     (let tm1 = tm_log (UnregisterThread attachment) tm in
      case map_of (tm_attachments tm1) attachment of
        None \<Rightarrow> (Some not_found, tm1)
      | Some tid \<Rightarrow>
          (None, tm1\<lparr>tm_attachments := filter (\<lambda>p. fst p \<noteq> attachment) (tm_attachments tm1)\<rparr>))"

definition tm_stopThread :: "nat \<Rightarrow> ThreadManager \<Rightarrow> exn option \<times> ThreadManager" where
  "tm_stopThread tid tm =
     (let tm1 = tm_log (StopThread tid) tm in
      case map_of (tm_threads tm1) tid of
        None \<Rightarrow> (Some not_found, tm1)
      | Some t \<Rightarrow>
          (None, tm_update tid (\<lambda>t. t\<lparr>th_stop_requested := True,
                   th_state := (if th_alive t then Stopping else th_state t)\<rparr>) tm1))"

definition tm_pauseThread :: "nat \<Rightarrow> ThreadManager \<Rightarrow> exn option \<times> ThreadManager" where
  "tm_pauseThread tid tm =
     (let tm1 = tm_log (PauseThread tid) tm in
      case map_of (tm_threads tm1) tid of
        None \<Rightarrow> (Some not_found, tm1)
      | Some t \<Rightarrow> (None, tm_update tid (\<lambda>t. t\<lparr>th_state := Paused\<rparr>) tm1))"

definition tm_resumeThread :: "nat \<Rightarrow> ThreadManager \<Rightarrow> exn option \<times> ThreadManager" where
  "tm_resumeThread tid tm =
     (let tm1 = tm_log (ResumeThread tid) tm in
      case map_of (tm_threads tm1) tid of
        None \<Rightarrow> (Some not_found, tm1)
      | Some t \<Rightarrow> (None, tm_update tid (\<lambda>t. t\<lparr>th_state := Running\<rparr>) tm1))"

definition tm_joinThread ::
  "(nat \<Rightarrow> bool) \<Rightarrow> nat \<Rightarrow> nat \<Rightarrow> ThreadManager \<Rightarrow> (exn + bool) \<times> ThreadManager" where
  "tm_joinThread joined tid timeout_ms tm =
     (let tm1 = tm_log (JoinThread tid timeout_ms) tm in
      case map_of (tm_threads tm1) tid of
        None \<Rightarrow> (Inl not_found, tm1)
      | Some t \<Rightarrow>
          if \<not> th_alive t then (Inr True, tm1)
          else if joined tid
          then (Inr True, tm_update tid (\<lambda>t. t\<lparr>th_alive := False, th_state := Stopped\<rparr>) tm1)
          else (Inr False, tm1))"

definition isThreadAlive :: "nat \<Rightarrow> ThreadManager \<Rightarrow> exn + bool" where
  "isThreadAlive tid tm =
     (case map_of (tm_threads tm) tid of None \<Rightarrow> Inl not_found | Some t \<Rightarrow> Inr (th_alive t))"

definition getThreadState :: "nat \<Rightarrow> ThreadManager \<Rightarrow> exn + ThreadState" where
  "getThreadState tid tm =
     (case map_of (tm_threads tm) tid of None \<Rightarrow> Inl not_found | Some t \<Rightarrow> Inr (th_state t))"

definition what :: "exn \<Rightarrow> string" where
  "what e = (case e of ThreadManagerException s \<Rightarrow> s)"

section \<open>Controller (RpcController.h, RpcController.cpp)\<close>

datatype ThreadOperation = START | STOP | PAUSE | RESUME | RESTART | STATUS

text \<open>The target \<^verbatim>\<open>ThreadTarget::ALL\<close> is written \<open>ALL_THREADS\<close>.\<close>

datatype ThreadTarget = MAINLOOP | HTTP_SERVER | STATISTICS | ALL_THREADS

datatype OperationStatus =
  SUCCESS | FAILED | THREAD_NOT_FOUND | INVALID_OPERATION | ALREADY_IN_STATE | TIMEOUT

record ThreadStateInfo =
  info_threadName :: string
  info_threadId :: nat
  info_state :: ThreadState
  info_isAlive :: bool
  info_attachmentId :: string

record RpcResponse =
  status :: OperationStatus
  message :: string
  threadStates :: "(string \<times> ThreadStateInfo) list"

text \<open>
  A \<^verbatim>\<open>std::map\<close> with string keys: a list of pairs kept in key order, one pair per key.
\<close>

fun map_put :: "string \<Rightarrow> 'v \<Rightarrow> (string \<times> 'v) list \<Rightarrow> (string \<times> 'v) list" where
  "map_put k v [] = [(k, v)]"
| "map_put k v ((k', v') # xs) =
     (if k = k' then (k, v) # xs
      else if k < k' then (k, v) # (k', v') # xs
      else (k', v') # map_put k v xs)"

definition map_erase :: "string \<Rightarrow> (string \<times> 'v) list \<Rightarrow> (string \<times> 'v) list" where
  "map_erase k xs = filter (\<lambda>p. fst p \<noteq> k) xs"

text \<open>
  The controller with the two collaborators its operations reach: the thread manager and
  the router instances of the process. A restart callback is a closure; \<open>restartCallbacks\<close>
  holds the names that have one, and what the callback registered under a name does is
  the parameter \<open>cb\<close> of the operations.
\<close>

record rpc_world =
  threadRegistry :: "(string \<times> nat) list"
  threadAttachments :: "(string \<times> string) list"
  restartCallbacks :: "string list"
  threadManager :: ThreadManager
  mainloops :: instances

definition registerThread :: "string \<Rightarrow> nat \<Rightarrow> string \<Rightarrow> rpc_world \<Rightarrow> rpc_world" where
  "registerThread threadName threadId attachmentId w =
     w\<lparr>threadRegistry := map_put threadName threadId (threadRegistry w),
       threadAttachments := map_put threadName attachmentId (threadAttachments w),
       threadManager := tm_registerThread threadId attachmentId (threadManager w)\<rparr>"

definition registerRestartCallback :: "string \<Rightarrow> rpc_world \<Rightarrow> rpc_world" where
  "registerRestartCallback threadName w =
     w\<lparr>restartCallbacks := map fst (map_put threadName () (map (\<lambda>n. (n, ())) (restartCallbacks w)))\<rparr>"

definition getThreadStateInfo :: "string \<Rightarrow> rpc_world \<Rightarrow> ThreadStateInfo" where
  "getThreadStateInfo threadName w =
     (let info = \<lparr>info_threadName = threadName, info_threadId = 0, info_state = Created,
                  info_isAlive = False, info_attachmentId = []\<rparr>
      in case map_of (threadRegistry w) threadName of
           None \<Rightarrow> info
         | Some tid \<Rightarrow>
             (let info1 =
                (case (getThreadState tid (threadManager w), isThreadAlive tid (threadManager w)) of
                   (Inr s, Inr a) \<Rightarrow> info\<lparr>info_threadId := tid, info_state := s, info_isAlive := a\<rparr>
                 | _ \<Rightarrow> info\<lparr>info_threadId := tid, info_state := Error, info_isAlive := False\<rparr>)
              in case map_of (threadAttachments w) threadName of
                   None \<Rightarrow> info1
                 | Some a \<Rightarrow> info1\<lparr>info_attachmentId := a\<rparr>))"

definition getThreadStatus :: "string \<Rightarrow> rpc_world \<Rightarrow> RpcResponse" where
  "getThreadStatus threadName w =
     (case map_of (threadRegistry w) threadName of
        None \<Rightarrow> \<lparr>status = THREAD_NOT_FOUND, message = ''Thread not found: '' @ threadName,
                 threadStates = []\<rparr>
      | Some tid \<Rightarrow> \<lparr>status = SUCCESS, message = ''Retrieved thread status'',
                 threadStates = [(threadName, getThreadStateInfo threadName w)]\<rparr>)"

text \<open>\<^verbatim>\<open>std::to_string\<close> of an unsigned number.\<close>

function to_string :: "nat \<Rightarrow> string" where
  "to_string n =
     (if n < 10 then [''0123456789'' ! n]
      else to_string (n div 10) @ [''0123456789'' ! (n mod 10)])"
  by pat_completeness auto
termination
  by (relation "measure id") auto

declare to_string.simps [simp del]

text \<open>
  The loop of the \<^verbatim>\<open>threadName == "ALL"\<close> branch of a stop: over the registry in key
  order; \<^verbatim>\<open>mainloop\<close> gets \<^verbatim>\<open>request_exit(0)\<close> on \<^verbatim>\<open>Mainloop::instance()\<close>, \<^verbatim>\<open>http_server\<close> is
  skipped, every other thread gets the manager's \<^verbatim>\<open>stopThread\<close>, whose exception ends the
  loop.
\<close>

fun stop_all_registered ::
  "addr option \<Rightarrow> (string \<times> nat) list \<Rightarrow> rpc_world \<Rightarrow> exn option \<times> rpc_world" where
  "stop_all_registered tls [] w = (None, w)"
| "stop_all_registered tls ((name, tid) # rest) w =
     (if name = ''mainloop''
      then stop_all_registered tls rest
             (w\<lparr>mainloops := request_exit (instance_of_thread tls) 0 (mainloops w)\<rparr>)
      else if name \<noteq> ''http_server''
      then (case tm_stopThread tid (threadManager w) of
              (Some e, tm) \<Rightarrow> (Some e, w\<lparr>threadManager := tm\<rparr>)
            | (None, tm) \<Rightarrow> stop_all_registered tls rest (w\<lparr>threadManager := tm\<rparr>))
      else stop_all_registered tls rest w)"

definition response :: "OperationStatus \<Rightarrow> string \<Rightarrow> RpcResponse" where
  "response s m = \<lparr>status = s, message = m, threadStates = []\<rparr>"

text \<open>The \<^verbatim>\<open>catch (const ThreadMgr::ThreadManagerException& e)\<close> of an operation.\<close>

definition failed_response :: "exn \<Rightarrow> RpcResponse" where
  "failed_response e = response FAILED (''Operation failed: '' @ what e)"

text \<open>
  After the \<^verbatim>\<open>switch\<close>: a response with status \<^verbatim>\<open>SUCCESS\<close> or \<^verbatim>\<open>ALREADY_IN_STATE\<close> gets
  the current state of the thread.
\<close>

definition with_thread_state :: "string \<Rightarrow> RpcResponse \<times> rpc_world \<Rightarrow> RpcResponse \<times> rpc_world" where
  "with_thread_state threadName rw =
     (case rw of (resp, w) \<Rightarrow>
        (if status resp = SUCCESS \<or> status resp = ALREADY_IN_STATE
         then resp\<lparr>threadStates :=
                map_put threadName (getThreadStateInfo threadName w) (threadStates resp)\<rparr>
         else resp, w))"

text \<open>
  The clean-up of a dead thread before its restart: a cooperative stop and a join bounded
  by 500 ms, then the unregistration of its attachment, each with its exceptions swallowed;
  then the thread is erased from the registry and the attachments.
\<close>

definition cleanup_old_thread ::
  "(nat \<Rightarrow> bool) \<Rightarrow> string \<Rightarrow> nat \<Rightarrow> string \<Rightarrow> rpc_world \<Rightarrow> rpc_world" where
  "cleanup_old_thread joined threadName threadId attachmentId w =
     (let tm2 = (case tm_stopThread threadId (threadManager w) of
                   (Some e, tm1) \<Rightarrow> tm1
                 | (None, tm1) \<Rightarrow> snd (tm_joinThread joined threadId 500 tm1));
          tm3 = (if attachmentId \<noteq> [] then snd (tm_unregisterThread attachmentId tm2) else tm2)
      in w\<lparr>threadManager := tm3,
           threadRegistry := map_erase threadName (threadRegistry w),
           threadAttachments := map_erase threadName (threadAttachments w)\<rparr>)"

text \<open>
  \<^verbatim>\<open>RpcController::executeOperationOnThread\<close>. \<open>cb\<close> runs the restart callback registered
  under a name and gives the new thread id, \<open>joined\<close> tells which threads end within the
  deadline of a join, \<open>tls\<close> is the thread-local router instance of the calling thread.
\<close>

definition executeOperationOnThread ::
  "(string \<Rightarrow> rpc_world \<Rightarrow> nat \<times> rpc_world) \<Rightarrow> (nat \<Rightarrow> bool) \<Rightarrow> addr option
    \<Rightarrow> string \<Rightarrow> ThreadOperation \<Rightarrow> rpc_world \<Rightarrow> RpcResponse \<times> rpc_world" where
  "executeOperationOnThread cb joined tls threadName operation w =
     (case map_of (threadRegistry w) threadName of
        None \<Rightarrow>
          if operation = START \<and> threadName \<in> set (restartCallbacks w)
          then (case cb threadName w of
                  (newThreadId, w1) \<Rightarrow>
                    (\<lparr>status = SUCCESS,
                      message = ''Thread created successfully with ID: '' @ to_string newThreadId,
                      threadStates = [(threadName, getThreadStateInfo threadName w1)]\<rparr>, w1))
          else (response THREAD_NOT_FOUND (''Thread not found: '' @ threadName), w)
      | Some threadId \<Rightarrow>
          let attachmentId =
                (case map_of (threadAttachments w) threadName of None \<Rightarrow> [] | Some a \<Rightarrow> a)
          in case operation of
            START \<Rightarrow>
              (case isThreadAlive threadId (threadManager w) of
                 Inl e \<Rightarrow> (failed_response e, w)
               | Inr True \<Rightarrow>
                   with_thread_state threadName
                     (response ALREADY_IN_STATE ''Thread is already running'', w)
               | Inr False \<Rightarrow>
                   if threadName \<in> set (restartCallbacks w)
                   then (case cb threadName (cleanup_old_thread joined threadName threadId attachmentId w) of
                           (newThreadId, w2) \<Rightarrow>
                             with_thread_state threadName
                               (\<lparr>status = SUCCESS,
                                 message = ''Thread restarted successfully with new ID: ''
                                            @ to_string newThreadId,
                                 threadStates = [(threadName, getThreadStateInfo threadName w2)]\<rparr>,
                                w2))
                   else (response FAILED ''Thread is not alive and no restart callback registered'', w))
          | STOP \<Rightarrow>
              if threadName = ''mainloop''
              then with_thread_state threadName
                     (response SUCCESS ''Mainloop thread stop requested'',
                      w\<lparr>mainloops := request_exit (instance_of_thread tls) 0 (mainloops w)\<rparr>)
              else if threadName = ''ALL''
              then (case stop_all_registered tls (threadRegistry w) w of
                      (Some e, w1) \<Rightarrow> (failed_response e, w1)
                    | (None, w1) \<Rightarrow>
                        with_thread_state threadName
                          (response SUCCESS ''All threads stop requested'', w1))
              else (case tm_stopThread threadId (threadManager w) of
                      (Some e, tm1) \<Rightarrow> (failed_response e, w\<lparr>threadManager := tm1\<rparr>)
                    | (None, tm1) \<Rightarrow>
                        with_thread_state threadName
                          (response SUCCESS ''Thread stop requested'', w\<lparr>threadManager := tm1\<rparr>))
          | PAUSE \<Rightarrow>
              (case tm_pauseThread threadId (threadManager w) of
                 (Some e, tm1) \<Rightarrow> (failed_response e, w\<lparr>threadManager := tm1\<rparr>)
               | (None, tm1) \<Rightarrow>
                   with_thread_state threadName
                     (response SUCCESS ''Thread paused successfully'', w\<lparr>threadManager := tm1\<rparr>))
          | RESUME \<Rightarrow>
              (case tm_resumeThread threadId (threadManager w) of
                 (Some e, tm1) \<Rightarrow> (failed_response e, w\<lparr>threadManager := tm1\<rparr>)
               | (None, tm1) \<Rightarrow>
                   with_thread_state threadName
                     (response SUCCESS ''Thread resumed successfully'', w\<lparr>threadManager := tm1\<rparr>))
          | RESTART \<Rightarrow>
              (case tm_stopThread threadId (threadManager w) of
                 (Some e, tm1) \<Rightarrow> (failed_response e, w\<lparr>threadManager := tm1\<rparr>)
               | (None, tm1) \<Rightarrow>
                   (case tm_joinThread joined threadId 5000 tm1 of
                      (Inl e, tm2) \<Rightarrow> (failed_response e, w\<lparr>threadManager := tm2\<rparr>)
                    | (Inr True, tm2) \<Rightarrow>
                        with_thread_state threadName
                          (response SUCCESS ''Thread stopped successfully - ready for restart'',
                           w\<lparr>threadManager := tm2\<rparr>)
                    | (Inr False, tm2) \<Rightarrow>
                        (response TIMEOUT ''Thread did not stop within timeout - restart aborted'',
                         w\<lparr>threadManager := tm2\<rparr>)))
          | STATUS \<Rightarrow> (getThreadStatus threadName w, w))"

definition names_for :: "string \<Rightarrow> rpc_world \<Rightarrow> string list" where
  "names_for n w =
     (if map_of (threadRegistry w) n \<noteq> None then [n]
      else if n \<in> set (restartCallbacks w) then [n]
      else [])"

definition getThreadNamesForTarget :: "ThreadTarget \<Rightarrow> rpc_world \<Rightarrow> string list" where
  "getThreadNamesForTarget target w =
     (case target of
        MAINLOOP \<Rightarrow> names_for ''mainloop'' w
      | HTTP_SERVER \<Rightarrow> names_for ''http_server'' w
      | STATISTICS \<Rightarrow> names_for ''statistics'' w
      | ALL_THREADS \<Rightarrow>
          map fst (threadRegistry w) @
          filter (\<lambda>n. map_of (threadRegistry w) n = None) (restartCallbacks w))"

record request_acc =
  allSuccess :: bool
  messageStream :: string
  merged :: "(string \<times> ThreadStateInfo) list"

text \<open>The loop of \<^verbatim>\<open>executeRequest\<close> over the target threads.\<close>

fun execute_on_threads ::
  "(string \<Rightarrow> rpc_world \<Rightarrow> nat \<times> rpc_world) \<Rightarrow> (nat \<Rightarrow> bool) \<Rightarrow> addr option
    \<Rightarrow> ThreadOperation \<Rightarrow> string list \<Rightarrow> request_acc \<Rightarrow> rpc_world
    \<Rightarrow> request_acc \<times> rpc_world" where
  "execute_on_threads cb joined tls operation [] acc w = (acc, w)"
| "execute_on_threads cb joined tls operation (threadName # rest) acc w =
     (case executeOperationOnThread cb joined tls threadName operation w of
        (threadResponse, w1) \<Rightarrow>
          execute_on_threads cb joined tls operation rest
            (acc\<lparr>allSuccess := (allSuccess acc \<and> status threadResponse = SUCCESS),
                 messageStream :=
                   (if status threadResponse \<noteq> SUCCESS
                    then messageStream acc @ threadName @ '': '' @ message threadResponse @ ''; ''
                    else messageStream acc),
                 merged := fold (\<lambda>p. map_put (fst p) (snd p)) (threadStates threadResponse) (merged acc)\<rparr>)
            w1)"

definition executeRequest ::
  "(string \<Rightarrow> rpc_world \<Rightarrow> nat \<times> rpc_world) \<Rightarrow> (nat \<Rightarrow> bool) \<Rightarrow> addr option
    \<Rightarrow> ThreadOperation \<Rightarrow> ThreadTarget \<Rightarrow> rpc_world \<Rightarrow> RpcResponse \<times> rpc_world" where
  "executeRequest cb joined tls operation target w =
     (let targetThreads = getThreadNamesForTarget target w in
      if targetThreads = [] then (response THREAD_NOT_FOUND ''No threads found for target'', w)
      else case execute_on_threads cb joined tls operation targetThreads
                  \<lparr>allSuccess = True, messageStream = [], merged = []\<rparr> w of
             (acc, w1) \<Rightarrow>
               (\<lparr>status = (if allSuccess acc then SUCCESS else FAILED),
                 message = (if allSuccess acc then ''Operation completed successfully''
                            else messageStream acc),
                 threadStates = merged acc\<rparr>, w1))"

definition startThread ::
  "(string \<Rightarrow> rpc_world \<Rightarrow> nat \<times> rpc_world) \<Rightarrow> (nat \<Rightarrow> bool) \<Rightarrow> addr option
    \<Rightarrow> ThreadTarget \<Rightarrow> rpc_world \<Rightarrow> RpcResponse \<times> rpc_world" where
  "startThread cb joined tls target w = executeRequest cb joined tls START target w"

definition stopThread ::
  "(string \<Rightarrow> rpc_world \<Rightarrow> nat \<times> rpc_world) \<Rightarrow> (nat \<Rightarrow> bool) \<Rightarrow> addr option
    \<Rightarrow> ThreadTarget \<Rightarrow> rpc_world \<Rightarrow> RpcResponse \<times> rpc_world" where
  "stopThread cb joined tls target w = executeRequest cb joined tls STOP target w"

text \<open>
  The restart callback that \<^verbatim>\<open>main\<close> registers for \<^verbatim>\<open>mainloop\<close>: it creates the router
  thread, registers it with the controller under the name and the attachment
  \<^verbatim>\<open>mainloop\<close>, and returns the new id. The thread body runs on its own.
\<close>

definition mainloop_restart_callback :: "rpc_world \<Rightarrow> nat \<times> rpc_world" where
  "mainloop_restart_callback w =
     (case createThread (threadManager w) of
        (newThreadId, tm) \<Rightarrow>
          (newThreadId, registerThread ''mainloop'' newThreadId ''mainloop'' (w\<lparr>threadManager := tm\<rparr>)))"

definition main_callbacks :: "string \<Rightarrow> rpc_world \<Rightarrow> nat \<times> rpc_world" where
  "main_callbacks threadName w =
     (if threadName = ''mainloop'' then mainloop_restart_callback w else (0, w))"

text \<open>
  The controller as \<^verbatim>\<open>main\<close> leaves it before any request: the restart callback for
  \<^verbatim>\<open>mainloop\<close> registered, no thread registered; and a controller with the HTTP server
  thread and a running router thread registered, as after a start.
\<close>

definition rpc_initial :: rpc_world where
  "rpc_initial =
     \<lparr>threadRegistry = [], threadAttachments = [], restartCallbacks = [''mainloop''],
      threadManager = ThreadManager_new, mainloops = Map.empty\<rparr>"

definition rpc_running :: rpc_world where
  "rpc_running =
     snd (mainloop_restart_callback
       (case createThread ThreadManager_new of
          (httpId, tm) \<Rightarrow>
            registerThread ''http_server'' httpId ''http_server''
              (rpc_initial\<lparr>threadManager := tm,
                 mainloops := [primary \<mapsto> Mainloop_new\<lparr>epollfd := 3\<rparr>]\<rparr>)))"

section \<open>Extension manager (ExtensionManager.h, ExtensionManager.cpp)\<close>

datatype ExtensionType = INTERNAL | TCP | UDP

record ExtensionConfig =
  ext_name :: string
  ext_type :: ExtensionType
  ext_address :: string
  ext_port :: nat
  assigned_extension_point :: string
  extension_thread_config :: Configuration

record ExtensionInfo =
  xi_name :: string
  xi_threadId :: nat
  xi_config :: ExtensionConfig
  xi_isRunning :: bool
  xi_mainloopInstance :: "addr option"

text \<open>
  The extension manager with what its operations reach: the thread manager, the router
  instances of the process (\<open>ext_allocated\<close> lists the addresses handed out so far), and
  the configuration files it writes, by path.
\<close>

record ext_world =
  extensions :: "(string \<times> ExtensionInfo) list"
  globalConfig :: "Configuration option"
  extensionConfDir :: string
  ext_threadManager :: ThreadManager
  ext_mainloops :: instances
  ext_allocated :: "addr list"
  conf_files :: "(string \<times> ExtensionConfig) list"

text \<open>\<^verbatim>\<open>s.find(pat) != std::string::npos\<close>: \<open>pat\<close> occurs somewhere in \<open>s\<close>.\<close>

fun starts_with :: "string \<Rightarrow> string \<Rightarrow> bool" where
  "starts_with [] s = True"
| "starts_with (c # cs) [] = False"
| "starts_with (c # cs) (d # ds) = (c = d \<and> starts_with cs ds)"

fun str_contains :: "string \<Rightarrow> string \<Rightarrow> bool" where
  "str_contains pat [] = (pat = [])"
| "str_contains pat (c # cs) = (starts_with pat (c # cs) \<or> str_contains pat cs)"

text \<open>The extension points in use: the non-empty assigned points of all existing extensions.\<close>

definition usedPoints :: "(string \<times> ExtensionInfo) list \<Rightarrow> string set" where
  "usedPoints exts =
     set (filter (\<lambda>p. p \<noteq> []) (map (\<lambda>e. assigned_extension_point (xi_config (snd e))) exts))"

text \<open>
  One search loop of \<^verbatim>\<open>assignAvailableExtensionPoint\<close>: the first name that contains the
  pool's tag and is not in use, the empty string when there is none.
\<close>

fun first_available :: "string \<Rightarrow> string set \<Rightarrow> string list \<Rightarrow> string" where
  "first_available tag used [] = []"
| "first_available tag used (n # ns) =
     (if str_contains tag n \<and> n \<notin> used then n else first_available tag used ns)"

definition assignAvailableExtensionPoint ::
  "Configuration \<Rightarrow> ExtensionType \<Rightarrow> (string \<times> ExtensionInfo) list \<Rightarrow> string" where
  "assignAvailableExtensionPoint g type exts =
     (case type of
        INTERNAL \<Rightarrow>
          first_available ''internal-router-point'' (usedPoints exts) (map udp_name (udp_configs g))
      | TCP \<Rightarrow>
          first_available ''tcp-extension-point'' (usedPoints exts) (map tcp_name (tcp_configs g))
      | UDP \<Rightarrow>
          first_available ''udp-extension-point'' (usedPoints exts) (map udp_name (udp_configs g)))"

definition validateExtensionConfig :: "ExtensionConfig \<Rightarrow> bool" where
  "validateExtensionConfig c = (ext_name c \<noteq> [] \<and> ext_address c \<noteq> [] \<and> ext_port c \<noteq> 0)"

definition getConfigFilePath :: "string \<Rightarrow> ext_world \<Rightarrow> string" where
  "getConfigFilePath name w = extensionConfDir w @ ''/extension_'' @ name @ ''.json''"

definition saveExtensionConfig :: "string \<Rightarrow> ext_world \<Rightarrow> ext_world" where
  "saveExtensionConfig name w =
     (case map_of (extensions w) name of
        None \<Rightarrow> w
      | Some info \<Rightarrow>
          w\<lparr>conf_files := map_put (getConfigFilePath name w) (xi_config info) (conf_files w)\<rparr>)"

text \<open>
  \<^verbatim>\<open>launchExtensionThread\<close>: creates the thread and registers it under the attachment
  \<^verbatim>\<open>extension_<name>\<close>. The thread body runs on its own; its first steps, up to the
  publication of the instance pointer in the extension's record, are
  \<open>extension_thread_publish\<close>.
\<close>

definition launchExtensionThread :: "ExtensionConfig \<Rightarrow> ext_world \<Rightarrow> nat \<times> ext_world" where
  "launchExtensionThread config w =
     (case createThread (ext_threadManager w) of
        (threadId, tm) \<Rightarrow>
          (threadId,
           w\<lparr>ext_threadManager := tm_registerThread threadId (''extension_'' @ ext_name config) tm\<rparr>))"

definition extension_thread_publish :: "string \<Rightarrow> ext_world \<Rightarrow> ext_world" where
  "extension_thread_publish name w =
     (case create_extension_instance (ext_allocated w) (ext_mainloops w) of
        (a, h) \<Rightarrow>
          let w1 = w\<lparr>ext_mainloops := h, ext_allocated := a # ext_allocated w\<rparr> in
          case map_of (extensions w1) name of
            None \<Rightarrow> w1
          | Some info \<Rightarrow>
              w1\<lparr>extensions := map_put name (info\<lparr>xi_mainloopInstance := Some a\<rparr>) (extensions w1)\<rparr>)"

text \<open>
  The endpoints of the extension's own router: the assigned point as it stands in the
  primary configuration (a UDP point in server mode), then the extension's peer as client.
\<close>

definition udp_client :: "ExtensionConfig \<Rightarrow> UdpEndpointConfig" where
  "udp_client c =
     \<lparr>udp_name = ext_name c, udp_address = ext_address c, udp_port = ext_port c,
      udp_mode = Client, udp_group = []\<rparr>"

definition tcp_client :: "ExtensionConfig \<Rightarrow> TcpEndpointConfig" where
  "tcp_client c =
     \<lparr>tcp_name = ext_name c, tcp_address = ext_address c, tcp_port = ext_port c,
      tcp_retry_timeout = 5000, tcp_group = []\<rparr>"

text \<open>
  \<^verbatim>\<open>createExtension\<close>; \<open>rnd\<close> is what \<^verbatim>\<open>std::rand()\<close> returns. The result is the returned
  string.
\<close>

definition createExtension :: "nat \<Rightarrow> ExtensionConfig \<Rightarrow> ext_world \<Rightarrow> string \<times> ext_world" where
  "createExtension rnd config w =
     (if map_of (extensions w) (ext_name config) \<noteq> None then (''Extension already exists'', w)
      else case globalConfig w of
        None \<Rightarrow> (''Global configuration not available'', w)
      | Some g \<Rightarrow>
          let point = assignAvailableExtensionPoint g (ext_type config) (extensions w) in
          if point = [] then (''No available extension points'', w)
          else
            let modified = config\<lparr>assigned_extension_point := point\<rparr> in
            if \<not> validateExtensionConfig modified then (''Invalid extension configuration'', w)
            else
              let base = Configuration_empty\<lparr>conf_tcp_port := 50000 + rnd mod 10000\<rparr>;
                  built =
                    (case ext_type modified of
                       INTERNAL \<Rightarrow>
                         if \<not> str_contains ''internal-router-point'' point
                         then Inl ''INTERNAL type must use internal-router-point''
                         else (case find (\<lambda>u. udp_name u = point) (udp_configs g) of
                                 None \<Rightarrow> Inl ''Internal router point not found in configuration''
                               | Some udp \<Rightarrow>
                                   Inr (base\<lparr>udp_configs := [udp\<lparr>udp_mode := Server\<rparr>, udp_client modified]\<rparr>))
                     | TCP \<Rightarrow>
                         Inr (base\<lparr>tcp_configs :=
                                (case find (\<lambda>t. tcp_name t = point) (tcp_configs g) of
                                   None \<Rightarrow> [] | Some tcp \<Rightarrow> [tcp]) @ [tcp_client modified]\<rparr>)
                     | UDP \<Rightarrow>
                         Inr (base\<lparr>udp_configs :=
                                (case find (\<lambda>u. udp_name u = point) (udp_configs g) of
                                   None \<Rightarrow> [] | Some udp \<Rightarrow> [udp\<lparr>udp_mode := Server\<rparr>])
                                @ [udp_client modified]\<rparr>))
              in case built of
                   Inl err \<Rightarrow> (err, w)
                 | Inr thread_config \<Rightarrow>
                     let final = modified\<lparr>extension_thread_config := thread_config\<rparr> in
                     case launchExtensionThread final w of
                       (threadId, w1) \<Rightarrow>
                         let info = \<lparr>xi_name = ext_name final, xi_threadId = threadId,
                                      xi_config = final, xi_isRunning = True,
                                      xi_mainloopInstance = None\<rparr>;
                             w2 = w1\<lparr>extensions := map_put (ext_name final) info (extensions w1)\<rparr>
                         in (''Success'', saveExtensionConfig (ext_name final) w2))"

subsection \<open>Stopping an extension\<close>

definition maxRetries :: nat where "maxRetries = 20"

datatype wait_result = Published addr | Removed | NeverInitialized

text \<open>
  The wait loop of \<^verbatim>\<open>stopExtension\<close>: while no instance pointer has been read and
  \<^verbatim>\<open>retries < maxRetries\<close>, read the pointer from the record; when it is null, release the
  lock, sleep 50 ms, take the lock, look the extension up again (giving up when it is
  gone), and count the retry. What the other threads do during the sleep number \<open>k\<close> is
  \<open>env k\<close>. The result comes with the number of sleeps.
\<close>

function wait_for_mainloop ::
  "(nat \<Rightarrow> ext_world \<Rightarrow> ext_world) \<Rightarrow> string \<Rightarrow> nat \<Rightarrow> ext_world
    \<Rightarrow> wait_result \<times> nat \<times> ext_world" where
  "wait_for_mainloop env name retries w =
     (if retries < maxRetries
      then (case map_of (extensions w) name of
              None \<Rightarrow> (Removed, retries, w)
            | Some info \<Rightarrow>
                (case xi_mainloopInstance info of
                   Some p \<Rightarrow> (Published p, retries, w)
                 | None \<Rightarrow>
                     (case map_of (extensions (env retries w)) name of
                        None \<Rightarrow> (Removed, Suc retries, env retries w)
                      | Some info' \<Rightarrow> wait_for_mainloop env name (Suc retries) (env retries w))))
      else (NeverInitialized, retries, w))"
  by pat_completeness auto
termination
  by (relation "measure (\<lambda>(env, name, retries, w). maxRetries - retries)") auto

declare wait_for_mainloop.simps [simp del]

definition set_stopped :: "string \<Rightarrow> ext_world \<Rightarrow> ext_world" where
  "set_stopped name w =
     (case map_of (extensions w) name of
        None \<Rightarrow> w
      | Some info \<Rightarrow>
          w\<lparr>extensions :=
               map_put name (info\<lparr>xi_isRunning := False, xi_mainloopInstance := None\<rparr>) (extensions w)\<rparr>)"

text \<open>
  What \<^verbatim>\<open>stopExtension\<close> does, in the order it does it: a sleep (in milliseconds, with the
  lock released), a call of \<^verbatim>\<open>request_exit\<close> through an instance pointer, a call of the
  thread manager.
\<close>

datatype ext_event = Sleep nat | RequestExit addr int | ManagerCall tm_call

primrec manager_calls :: "ext_event list \<Rightarrow> tm_call list" where
  "manager_calls [] = []"
| "manager_calls (e # es) =
     (case e of ManagerCall c \<Rightarrow> c # manager_calls es | _ \<Rightarrow> manager_calls es)"

text \<open>
  A method call through a pointer to an instance that has been deleted has no defined
  behaviour; it is an error of its own.
\<close>

datatype ext_error = UseAfterFree addr

text \<open>
  \<^verbatim>\<open>Mainloop::destroy_extension_instance\<close> (mainloop.cpp): nothing for a null pointer;
  otherwise the descriptors of the instance are closed, its vectors cleared and the
  instance deleted, after which no instance lives at the address.
\<close>

definition destroy_extension_instance :: "addr option \<Rightarrow> instances \<Rightarrow> instances" where
  "destroy_extension_instance instance h =
     (case instance of None \<Rightarrow> h | Some a \<Rightarrow> h(a := None))"

text \<open>
  The end of the extension thread's body, whether its loop returned or an exception was
  caught: the instance \<^verbatim>\<open>extensionLoop\<close> it created is destroyed when the pointer is not
  null. The pointer in the extension's record is not touched.
\<close>

definition extension_thread_cleanup :: "addr option \<Rightarrow> ext_world \<Rightarrow> ext_world" where
  "extension_thread_cleanup extensionLoop w =
     (case extensionLoop of
        None \<Rightarrow> w
      | Some a \<Rightarrow> w\<lparr>ext_mainloops := destroy_extension_instance (Some a) (ext_mainloops w)\<rparr>)"

text \<open>
  The forced termination when the pointer never appeared: stop, join bounded by 2 s and
  unregister, abandoned at the first exception. The calls made come with the manager.
\<close>

definition force_terminate ::
  "(nat \<Rightarrow> bool) \<Rightarrow> nat \<Rightarrow> string \<Rightarrow> ThreadManager \<Rightarrow> tm_call list \<times> ThreadManager" where
  "force_terminate joined threadId attachmentId tm =
     (case tm_stopThread threadId tm of
        (Some e, tm1) \<Rightarrow> ([StopThread threadId], tm1)
      | (None, tm1) \<Rightarrow>
          (case tm_joinThread joined threadId 2000 tm1 of
             (Inl e, tm2) \<Rightarrow> ([StopThread threadId, JoinThread threadId 2000], tm2)
           | (Inr b, tm2) \<Rightarrow>
               ([StopThread threadId, JoinThread threadId 2000, UnregisterThread attachmentId],
                snd (tm_unregisterThread attachmentId tm2))))"

text \<open>
  \<^verbatim>\<open>stopExtension\<close>. The result is the returned boolean, or the error of a call through a
  dangling pointer, with the events of the call in their order. When the wait ends without
  a pointer, the thread is terminated through the thread manager, the record is marked
  stopped and \<^verbatim>\<open>false\<close> is returned. With the pointer \<open>p\<close> in hand: \<^verbatim>\<open>request_exit(0)\<close>
  through \<open>p\<close>, the join bounded by 5 s (an exception of the join ends the call with
  \<^verbatim>\<open>false\<close>), the unregistration with its exception swallowed, and the record marked
  stopped. Whether the thread ends within the deadline of a join depends on the router
  instances at that moment (the thread's loop ends once the exit flag of its instance is
  set): the parameter \<open>joined\<close> reads them. The instances returned are those the steps of
  \<^verbatim>\<open>stopExtension\<close> itself leave; the extension thread destroys its instance on its own
  once its loop has ended (\<open>extension_thread_cleanup\<close>).
\<close>

definition stopExtension ::
  "(nat \<Rightarrow> ext_world \<Rightarrow> ext_world) \<Rightarrow> (instances \<Rightarrow> nat \<Rightarrow> bool) \<Rightarrow> string \<Rightarrow> ext_world
     \<Rightarrow> (ext_error + bool) \<times> ext_event list \<times> ext_world" where
  "stopExtension env joined name w =
     (case map_of (extensions w) name of
        None \<Rightarrow> (Inr False, [], w)
      | Some info \<Rightarrow>
          if \<not> xi_isRunning info then (Inr True, [], w)
          else
            let threadId = xi_threadId info; attachmentId = ''extension_'' @ name in
            case wait_for_mainloop env name 0 w of
              (Removed, k, w1) \<Rightarrow> (Inr False, replicate k (Sleep 50), w1)
            | (NeverInitialized, k, w1) \<Rightarrow>
                (case force_terminate (joined (ext_mainloops w1)) threadId attachmentId
                        (ext_threadManager w1) of
                   (calls, tm1) \<Rightarrow>
                     (Inr False, replicate k (Sleep 50) @ map ManagerCall calls,
                      set_stopped name (w1\<lparr>ext_threadManager := tm1\<rparr>)))
            | (Published p, k, w1) \<Rightarrow>
                (case ext_mainloops w1 p of
                   None \<Rightarrow>
                     (Inl (UseAfterFree p), replicate k (Sleep 50) @ [RequestExit p 0], w1)
                 | Some m \<Rightarrow>
                     let w2 = w1\<lparr>ext_mainloops := request_exit p 0 (ext_mainloops w1)\<rparr> in
                     case tm_joinThread (joined (ext_mainloops w2)) threadId 5000
                            (ext_threadManager w2) of
                       (Inl e, tm1) \<Rightarrow>
                         (Inr False,
                          replicate k (Sleep 50) @
                            [RequestExit p 0, ManagerCall (JoinThread threadId 5000)],
                          w2\<lparr>ext_threadManager := tm1\<rparr>)
                     | (Inr exitedCleanly, tm1) \<Rightarrow>
                         (Inr True,
                          replicate k (Sleep 50) @
                            [RequestExit p 0, ManagerCall (JoinThread threadId 5000),
                             ManagerCall (UnregisterThread attachmentId)],
                          set_stopped name
                            (w2\<lparr>ext_threadManager :=
                                  snd (tm_unregisterThread attachmentId tm1)\<rparr>))))"

subsection \<open>Auxiliary notions and concrete inputs\<close>






definition udp_point :: "string \<Rightarrow> nat \<Rightarrow> UdpEndpointConfig" where
  "udp_point name port =
     \<lparr>udp_name = name, udp_address = ''127.0.0.1'', udp_port = port, udp_mode = Client,
      udp_group = []\<rparr>"

definition primary_config :: Configuration where
  "primary_config =
     Configuration_empty
       \<lparr>udp_configs := [udp_point ''gcs'' 14550, udp_point ''udp-extension-point-1'' 44100,
                        udp_point ''udp-extension-point-2'' 44200]\<rparr>"

definition ext_initial :: ext_world where
  "ext_initial =
     \<lparr>extensions = [], globalConfig = Some primary_config, extensionConfDir = ''pkg_src/config'',
      ext_threadManager = ThreadManager_new,
      ext_mainloops = [primary \<mapsto> Mainloop_new\<lparr>epollfd := 3\<rparr>], ext_allocated = [],
      conf_files = []\<rparr>"

definition ext_request :: "string \<Rightarrow> string \<Rightarrow> ExtensionConfig" where
  "ext_request name point =
     \<lparr>ext_name = name, ext_type = UDP, ext_address = ''127.0.0.1'', ext_port = 20000,
      assigned_extension_point = point, extension_thread_config = Configuration_empty\<rparr>"

text \<open>
  Other threads during the sleeps: the extension thread publishes its pointer during the
  sleep number \<open>n\<close>, counted from 0.
\<close>

definition publish_during_sleep :: "nat \<Rightarrow> string \<Rightarrow> nat \<Rightarrow> ext_world \<Rightarrow> ext_world" where
  "publish_during_sleep n name k w = (if k = n then extension_thread_publish name w else w)"

text \<open>The thread of an extension is gone by the deadline of a join when the instance at \<open>a\<close>
  has been asked to exit or no longer exists.\<close>

definition ends_when_asked :: "addr \<Rightarrow> instances \<Rightarrow> nat \<Rightarrow> bool" where
  "ends_when_asked a h tid = (case h a of None \<Rightarrow> True | Some m \<Rightarrow> should_exit m)"

text \<open>
  The manager after one extension \<open>x\<close> was created (its request named the second point),
  and after a second extension \<open>y\<close>.
\<close>

definition ext_one :: ext_world where
  "ext_one = snd (createExtension 0 (ext_request ''x'' ''udp-extension-point-2'') ext_initial)"


section \<open>De-duplication cache: proofs\<close>

lemma expire_entries_queue:
  "fst (expire_entries t P q S) = dropWhile (\<lambda>e. \<not> retained t P e) q"
  by (induction q arbitrary: S) (auto simp: retained_def)

lemma expire_entries_set:
  "S = snd ` set q \<Longrightarrow> distinct (map snd q) \<Longrightarrow>
   snd (expire_entries t P q S) = snd ` set (fst (expire_entries t P q S))"
proof (induction q arbitrary: S)
  case Nil
  then show ?case by simp
next
  case (Cons e q)
  obtain t0 h where e: "e = (t0, h)" by (cases e)
  from Cons.prems have "S - {h} = snd ` set q"
    by (auto simp: e image_iff)
  with Cons show ?case by (auto simp: e)
qed

lemma retained_nat:
  "unat t0 + unat P < 2 ^ 32 \<Longrightarrow> retained t P (t0, h) = (unat t \<le> unat t0 + unat P)"
  for t0 :: time_t
proof -
  assume "unat t0 + unat P < 2 ^ 32"
  then have "unat (t0 + P) = unat t0 + unat P"
    using unat_add_lem [of t0 P] by simp
  then show ?thesis
    by (auto simp: retained_def word_less_nat_alt)
qed

lemma dropWhile_filter_sorted:
  "sorted (map fst q) \<Longrightarrow> \<forall>e \<in> set q. unat (fst e) + unat P < 2 ^ 32 \<Longrightarrow>
   dropWhile (\<lambda>e. \<not> retained t P e) q = filter (retained t P) q"
  for q :: "(time_t \<times> hash_t) list"
proof (induction q)
  case Nil
  then show ?case by simp
next
  case (Cons e q)
  obtain t0 h where e: "e = (t0, h)" by (cases e)
  show ?case
  proof (cases "retained t P e")
    case True
    have "\<forall>e' \<in> set q. retained t P e'"
    proof
      fix e' assume e': "e' \<in> set q"
      obtain t1 h1 where e1: "e' = (t1, h1)" by (cases e')
      from Cons.prems e' have le: "t0 \<le> t1" by (auto simp: e e1)
      from Cons.prems e' have nw: "unat t1 + unat P < 2 ^ 32" by (auto simp: e1)
      from Cons.prems have nw0: "unat t0 + unat P < 2 ^ 32" by (auto simp: e)
      from True have "unat t \<le> unat t0 + unat P" using retained_nat [OF nw0] by (simp add: e)
      moreover from le have "unat t0 \<le> unat t1" by (simp add: word_le_nat_alt)
      ultimately show "retained t P e'" using retained_nat [OF nw] by (simp add: e1)
    qed
    then have "filter (retained t P) q = q" by (simp add: filter_id_conv)
    with True show ?thesis by simp
  next
    case False
    with Cons show ?thesis by simp
  qed
qed

lemma check_packets_snoc:
  "check_packets hash_fn d (tr @ [(t, p)]) =
     (case check_packets hash_fn d tr of
        (rs, d') \<Rightarrow> (case Dedup_check_packet hash_fn t p d' of (r, d'') \<Rightarrow> (rs @ [r], d'')))"
  by (induction tr arbitrary: d) (auto split: prod.splits)

lemma check_packets_length:
  "check_packets hash_fn d tr = (rs, d') \<Longrightarrow> length rs = length tr"
  by (induction tr arbitrary: d rs) (auto split: prod.splits)

lemma inserted_snoc:
  "length rs = length tr \<Longrightarrow>
   inserted hash_fn (tr @ [(t, p)]) (rs @ [r]) =
     inserted hash_fn tr rs @ (if r = NEW_PACKET_OR_TIMED_OUT then [(t, hash_fn p)] else [])"
  by (simp add: inserted_def)

lemma inserted_times:
  "e \<in> set (inserted hash_fn tr rs) \<Longrightarrow> fst e \<in> fst ` set tr"
  by (force simp: inserted_def dest!: set_zip_leftD)

lemma sorted_map_filter: "sorted (map f xs) \<Longrightarrow> sorted (map f (filter P xs))"
  by (induction xs) auto

lemma inserted_sorted:
  "sorted (map fst tr) \<Longrightarrow> sorted (map fst (inserted hash_fn tr rs))"
proof (induction tr arbitrary: rs)
  case Nil
  then show ?case by (simp add: inserted_def)
next
  case (Cons x tr)
  show ?case
  proof (cases rs)
    case Nil
    then show ?thesis by (simp add: inserted_def)
  next
    case (Cons r rs')
    have ih: "sorted (map fst (inserted hash_fn tr rs'))"
      using Cons.IH Cons.prems by simp
    have "\<forall>e \<in> set (inserted hash_fn tr rs'). fst x \<le> fst e"
      using Cons.prems inserted_times [of _ hash_fn tr rs'] by force
    with ih show ?thesis
      using Cons by (auto simp: inserted_def)
  qed
qed

lemma retained_mono:
  assumes "unat t0 + unat P < 2 ^ 32" and "t' \<le> t" and "retained t P (t0, h)"
  shows "retained t' P (t0, h)"
proof -
  from assms(2) have "unat t' \<le> unat t" by (simp add: word_le_nat_alt)
  with assms(1,3) show ?thesis by (simp add: retained_nat)
qed

lemma expire_entries_inserted:
  assumes inv: "cache_inv hash_fn P tr rs d" and i: "impl d = Some i"
    and ok: "clock_ok P (map fst tr)" and le_t: "\<forall>x \<in> set (map fst tr). x \<le> t"
  shows "expire_entries t P (time_hash_queue i) (packet_hash_set i) =
           (filter (retained t P) (inserted hash_fn tr rs),
            snd ` set (filter (retained t P) (inserted hash_fn tr rs)))"
proof -
  let ?ins = "inserted hash_fn tr rs"
  let ?tl = "last (0 # map fst tr)"
  from inv i have q: "time_hash_queue i = filter (retained ?tl P) ?ins"
    and S: "packet_hash_set i = snd ` set (time_hash_queue i)"
    and dist: "distinct (map snd (time_hash_queue i))"
    by (auto simp: cache_inv_def)
  from ok have srt: "sorted (map fst tr)"
    and nw: "\<forall>x \<in> set (map fst tr). unat x + unat P < 2 ^ 32"
    by (auto simp: clock_ok_def list_all_iff)
  have nw_ins: "\<forall>e \<in> set ?ins. unat (fst e) + unat P < 2 ^ 32"
  proof
    fix e assume "e \<in> set ?ins"
    then have "fst e \<in> set (map fst tr)" using inserted_times [of e hash_fn tr rs] by simp
    with nw show "unat (fst e) + unat P < 2 ^ 32" by blast
  qed
  have sq: "sorted (map fst (time_hash_queue i))"
    unfolding q by (rule sorted_map_filter) (rule inserted_sorted [OF srt])
  have nw_q: "\<forall>e \<in> set (time_hash_queue i). unat (fst e) + unat P < 2 ^ 32"
    using nw_ins by (simp add: q)
  have tl_le: "?ins \<noteq> [] \<Longrightarrow> ?tl \<le> t"
  proof -
    assume "?ins \<noteq> []"
    then have "tr \<noteq> []" by (auto simp: inserted_def)
    then have "?tl \<in> set (map fst tr)" by (simp add: last_map)
    with le_t show ?thesis by blast
  qed
  have "fst (expire_entries t P (time_hash_queue i) (packet_hash_set i))
          = filter (retained t P) (time_hash_queue i)"
    by (simp add: expire_entries_queue dropWhile_filter_sorted [OF sq nw_q])
  also have "\<dots> = filter (\<lambda>e. retained ?tl P e \<and> retained t P e) ?ins"
    by (simp add: q conj_commute)
  also have "\<dots> = filter (retained t P) ?ins"
  proof (rule filter_cong [OF refl])
    fix e assume e: "e \<in> set ?ins"
    then have ne: "?ins \<noteq> []" by auto
    obtain t0 h where eq: "e = (t0, h)" by (cases e)
    from e nw_ins have "unat t0 + unat P < 2 ^ 32" by (auto simp: eq)
    from retained_mono [OF this tl_le [OF ne]]
    show "(retained ?tl P e \<and> retained t P e) = retained t P e"
      by (auto simp: eq)
  qed
  finally have f: "fst (expire_entries t P (time_hash_queue i) (packet_hash_set i))
          = filter (retained t P) ?ins" .
  from expire_entries_set [OF S dist, of t P] f
  show ?thesis by (simp add: prod_eq_iff)
qed

lemma retained_self:
  "unat t + unat P < 2 ^ 32 \<Longrightarrow> retained t P (t, h)"
  by (simp add: retained_nat)

lemma clock_ok_snoc:
  "clock_ok P (map fst (tr @ [(t, p)])) \<Longrightarrow>
   clock_ok P (map fst tr) \<and> (\<forall>x \<in> set (map fst tr). x \<le> t)"
  by (auto simp: clock_ok_def sorted_append)

lemma Dedup_check_packet_answer:
  assumes inv: "cache_inv hash_fn P tr rs d" and P: "P \<noteq> 0"
    and ok0: "clock_ok P (map fst tr)" and le_t: "\<forall>x \<in> set (map fst tr). x \<le> t"
  shows "(fst (Dedup_check_packet hash_fn t p d) = ALREADY_EXISTS_IN_BUFFER) =
           (\<exists>e \<in> set (inserted hash_fn tr rs). snd e = hash_fn p \<and> retained t P e)"
proof -
  let ?ins = "inserted hash_fn tr rs"
  from inv obtain i where i: "impl d = Some i" and per: "dedup_period_ms d = P"
    by (auto simp: cache_inv_def)
  note ex = expire_entries_inserted [OF inv i ok0 le_t]
  have mem: "(hash_fn p \<in> snd ` set (filter (retained t P) ?ins)) =
           (\<exists>e \<in> set ?ins. snd e = hash_fn p \<and> retained t P e)"
    by force
  have "(fst (Dedup_check_packet hash_fn t p d) = ALREADY_EXISTS_IN_BUFFER) =
          (hash_fn p \<in> snd ` set (filter (retained t P) ?ins))"
    using P
    by (simp add: Dedup_check_packet_def DedupImpl_check_packet_def i per ex Let_def
        split: if_splits)
  then show ?thesis by (simp only: mem)
qed

lemma Dedup_check_packet_step:
  assumes inv: "cache_inv hash_fn P tr rs d" and P: "P \<noteq> 0"
    and ok: "clock_ok P (map fst (tr @ [(t, p)]))"
    and step: "Dedup_check_packet hash_fn t p d = (r, d')"
  shows "cache_inv hash_fn P (tr @ [(t, p)]) (rs @ [r]) d'"
    and "(r = ALREADY_EXISTS_IN_BUFFER) =
           (\<exists>e \<in> set (inserted hash_fn tr rs). snd e = hash_fn p \<and> retained t P e)"
proof -
  let ?ins = "inserted hash_fn tr rs"
  from clock_ok_snoc [OF ok] have ok0: "clock_ok P (map fst tr)"
    and le_t: "\<forall>x \<in> set (map fst tr). x \<le> t"
    by blast+
  from inv obtain i where i: "impl d = Some i" and per: "dedup_period_ms d = P"
    and len: "length rs = length tr"
    by (auto simp: cache_inv_def)
  from inv i have dist: "distinct (map snd (time_hash_queue i))"
    and q: "time_hash_queue i = filter (retained (last (0 # map fst tr)) P) ?ins"
    by (auto simp: cache_inv_def)
  have dist_ins: "distinct (map snd (filter (retained t P) ?ins))"
  proof -
    let ?Q = "\<lambda>e. \<not> retained t P e"
    have "distinct (map snd (takeWhile ?Q (time_hash_queue i) @ dropWhile ?Q (time_hash_queue i)))"
      using dist by simp
    then have "distinct (map snd (dropWhile ?Q (time_hash_queue i)))"
      by (simp only: map_append distinct_append)
    moreover have "dropWhile ?Q (time_hash_queue i) = filter (retained t P) ?ins"
      using expire_entries_inserted [OF inv i ok0 le_t]
        expire_entries_queue [of t P "time_hash_queue i" "packet_hash_set i"]
      by simp
    ultimately show ?thesis by simp
  qed
  from ok have nwt: "unat t + unat P < 2 ^ 32" by (simp add: clock_ok_def)
  note ex = expire_entries_inserted [OF inv i ok0 le_t]
  have mem: "(hash_fn p \<in> snd ` set (filter (retained t P) ?ins)) =
           (\<exists>e \<in> set ?ins. snd e = hash_fn p \<and> retained t P e)"
    by force
  have "(r = ALREADY_EXISTS_IN_BUFFER) = (hash_fn p \<in> snd ` set (filter (retained t P) ?ins))"
    using step P
    by (simp add: Dedup_check_packet_def DedupImpl_check_packet_def i per ex Let_def
        split: if_splits)
  then show "(r = ALREADY_EXISTS_IN_BUFFER) =
           (\<exists>e \<in> set ?ins. snd e = hash_fn p \<and> retained t P e)"
    by (simp only: mem)
  show "cache_inv hash_fn P (tr @ [(t, p)]) (rs @ [r]) d'"
  proof (cases "hash_fn p \<in> snd ` set (filter (retained t P) ?ins)")
    case True
    with step P have r: "r = ALREADY_EXISTS_IN_BUFFER"
      and d': "d' = d\<lparr>impl := Some \<lparr>time_hash_queue = filter (retained t P) ?ins,
                 packet_hash_set = snd ` set (filter (retained t P) ?ins)\<rparr>\<rparr>"
      by (auto simp: Dedup_check_packet_def DedupImpl_check_packet_def i per ex Let_def
          split: if_splits)
    show ?thesis
      using dist_ins by (simp add: cache_inv_def d' r per len inserted_snoc)
  next
    case False
    with step P have r: "r = NEW_PACKET_OR_TIMED_OUT"
      and d': "d' = d\<lparr>impl := Some \<lparr>time_hash_queue = filter (retained t P) ?ins @ [(t, hash_fn p)],
                 packet_hash_set = insert (hash_fn p) (snd ` set (filter (retained t P) ?ins))\<rparr>\<rparr>"
      by (auto simp: Dedup_check_packet_def DedupImpl_check_packet_def i per ex Let_def
          split: if_splits)
    show ?thesis
      using dist_ins False retained_self [OF nwt]
      by (simp add: cache_inv_def d' r per len inserted_snoc)
  qed
qed

lemma cache_inv_init: "cache_inv hash_fn P [] [] (Dedup_new P)"
  by (simp add: cache_inv_def Dedup_new_def DedupImpl_new_def inserted_def)

lemma clock_ok_prefix: "clock_ok P (xs @ ys) \<Longrightarrow> clock_ok P xs"
  by (simp add: clock_ok_def sorted_append)

lemma inserted_set:
  "length rs = length tr \<Longrightarrow>
   set (inserted hash_fn tr rs) =
     {(fst (tr ! i), hash_fn (snd (tr ! i))) | i. i < length tr \<and> rs ! i = NEW_PACKET_OR_TIMED_OUT}"
  by (force simp: inserted_def set_zip image_iff)

lemma inserted_retained_index:
  assumes len: "length rs = length tr" and ok: "clock_ok P (map fst tr)"
    and le_t: "\<forall>x \<in> set (map fst tr). x \<le> t"
  shows "(\<exists>e \<in> set (inserted hash_fn tr rs). snd e = h \<and> retained t P e) =
         (\<exists>i < length tr. rs ! i = NEW_PACKET_OR_TIMED_OUT \<and> hash_fn (snd (tr ! i)) = h \<and>
             in_window P t (fst (tr ! i)))"
proof -
  have nw: "unat (fst (tr ! i)) + unat P < 2 ^ 32" and le: "unat (fst (tr ! i)) \<le> unat t"
    if "i < length tr" for i
  proof -
    from that have m: "fst (tr ! i) \<in> set (map fst tr)" by (simp add: image_iff) (metis nth_mem)
    with ok show "unat (fst (tr ! i)) + unat P < 2 ^ 32"
      by (auto simp: clock_ok_def list_all_iff)
    from le_t m have "fst (tr ! i) \<le> t" by blast
    then show "unat (fst (tr ! i)) \<le> unat t" by (simp add: word_le_nat_alt)
  qed
  show ?thesis
    unfolding inserted_set [OF len] in_window_def
    using nw le by (auto simp: retained_nat)
qed

lemma check_packets_char:
  assumes P: "P \<noteq> 0"
  shows "clock_ok P (map fst tr) \<Longrightarrow> check_packets hash_fn (Dedup_new P) tr = (rs, d) \<Longrightarrow>
    cache_inv hash_fn P tr rs d \<and>
    (\<forall>k < length tr. (rs ! k = ALREADY_EXISTS_IN_BUFFER) =
        (\<exists>i < k. rs ! i = NEW_PACKET_OR_TIMED_OUT \<and> hash_fn (snd (tr ! i)) = hash_fn (snd (tr ! k)) \<and>
            in_window P (fst (tr ! k)) (fst (tr ! i))))"
proof (induction tr arbitrary: rs d rule: rev_induct)
  case Nil
  then show ?case using cache_inv_init [of hash_fn P] by auto
next
  case (snoc x tr)
  obtain t p where x: "x = (t, p)" by (cases x)
  obtain rs0 d0 where run0: "check_packets hash_fn (Dedup_new P) tr = (rs0, d0)"
    by (cases "check_packets hash_fn (Dedup_new P) tr")
  obtain r d1 where step: "Dedup_check_packet hash_fn t p d0 = (r, d1)"
    by (cases "Dedup_check_packet hash_fn t p d0")
  from snoc.prems(2) have rs: "rs = rs0 @ [r]" and d: "d = d1"
    by (simp_all add: x check_packets_snoc run0 step)
  from snoc.prems(1) have ok: "clock_ok P (map fst (tr @ [(t, p)]))" by (simp add: x)
  from ok have ok0: "clock_ok P (map fst tr)" using clock_ok_prefix [of P "map fst tr"] by simp
  from snoc.IH [OF ok0 run0] have inv0: "cache_inv hash_fn P tr rs0 d0"
    and ch0: "\<forall>k < length tr. (rs0 ! k = ALREADY_EXISTS_IN_BUFFER) =
        (\<exists>i < k. rs0 ! i = NEW_PACKET_OR_TIMED_OUT \<and> hash_fn (snd (tr ! i)) = hash_fn (snd (tr ! k)) \<and>
            in_window P (fst (tr ! k)) (fst (tr ! i)))"
    by blast+
  from inv0 have len: "length rs0 = length tr" by (simp add: cache_inv_def)
  note st = Dedup_check_packet_step [OF inv0 P ok step]
  have last: "(r = ALREADY_EXISTS_IN_BUFFER) =
      (\<exists>i < length tr. rs0 ! i = NEW_PACKET_OR_TIMED_OUT \<and> hash_fn (snd (tr ! i)) = hash_fn p \<and>
          in_window P t (fst (tr ! i)))"
    using st(2) inserted_retained_index [OF len ok0, of t hash_fn "hash_fn p"]
      clock_ok_snoc [OF ok] by simp
  have "(rs ! k = ALREADY_EXISTS_IN_BUFFER) =
        (\<exists>i < k. rs ! i = NEW_PACKET_OR_TIMED_OUT \<and>
            hash_fn (snd ((tr @ [x]) ! i)) = hash_fn (snd ((tr @ [x]) ! k)) \<and>
            in_window P (fst ((tr @ [x]) ! k)) (fst ((tr @ [x]) ! i)))"
    if k: "k < length (tr @ [x])" for k
  proof (cases "k < length tr")
    case True
    then show ?thesis
      using ch0 len by (simp add: rs nth_append cong: conj_cong)
  next
    case False
    with k have keq: "k = length tr" by simp
    show ?thesis
      using last len by (simp add: keq rs x nth_append cong: conj_cong)
  qed
  with st(1) show ?case by (simp add: rs d x)
qed

text \<open>
  Claim C5, as amended. For every non-zero period, in a run of checks on a fresh cache whose
  clock readings do not decrease and stay, with the period added, below \<open>2 ^ 32\<close> (the
  32-bit sum of the eviction test does not wrap), and whose payloads have distinct hashes
  when they differ, the check number \<open>k\<close> answers \<^verbatim>\<open>ALREADY_EXISTS_IN_BUFFER\<close> if and only
  if an identical payload was inserted (checked and found new) by an earlier check whose
  time lies in the closed window \<open>[t - period, t]\<close>. With a period of 100 ms, checks of
  one payload at 0, 50 and 200 answer New, Duplicate, New.
\<close>

theorem dedup_window_closed:
  "(period \<noteq> 0 \<and> clock_ok period (map fst tr) \<and> inj_on hash_fn (snd ` set tr) \<and> k < length tr \<longrightarrow>
     (fst (check_packets hash_fn (Dedup_new period) tr) ! k = ALREADY_EXISTS_IN_BUFFER) =
     (\<exists>i < k. fst (check_packets hash_fn (Dedup_new period) tr) ! i = NEW_PACKET_OR_TIMED_OUT \<and>
         snd (tr ! i) = snd (tr ! k) \<and> in_window period (fst (tr ! k)) (fst (tr ! i)))) \<and>
   fst (check_packets hash_fn (Dedup_new 100) [(0, p), (50, p), (200, p)]) =
     [NEW_PACKET_OR_TIMED_OUT, ALREADY_EXISTS_IN_BUFFER, NEW_PACKET_OR_TIMED_OUT]"
proof (intro conjI impI)
  assume a: "period \<noteq> 0 \<and> clock_ok period (map fst tr) \<and> inj_on hash_fn (snd ` set tr) \<and> k < length tr"
  obtain rs d where run: "check_packets hash_fn (Dedup_new period) tr = (rs, d)"
    by (cases "check_packets hash_fn (Dedup_new period) tr")
  from a have P: "period \<noteq> 0" and ok: "clock_ok period (map fst tr)"
    and inj: "inj_on hash_fn (snd ` set tr)" and k: "k < length tr" by simp_all
  from check_packets_char [OF P ok run] k
  have ch: "(rs ! k = ALREADY_EXISTS_IN_BUFFER) =
        (\<exists>i < k. rs ! i = NEW_PACKET_OR_TIMED_OUT \<and> hash_fn (snd (tr ! i)) = hash_fn (snd (tr ! k)) \<and>
            in_window period (fst (tr ! k)) (fst (tr ! i)))"
    by blast
  have "(hash_fn (snd (tr ! i)) = hash_fn (snd (tr ! k))) = (snd (tr ! i) = snd (tr ! k))"
    if "i < k" for i
  proof -
    from that k have "snd (tr ! i) \<in> snd ` set tr" "snd (tr ! k) \<in> snd ` set tr"
      by simp_all
    with inj show ?thesis by (auto dest: inj_onD)
  qed
  with ch show "(fst (check_packets hash_fn (Dedup_new period) tr) ! k = ALREADY_EXISTS_IN_BUFFER) =
     (\<exists>i < k. fst (check_packets hash_fn (Dedup_new period) tr) ! i = NEW_PACKET_OR_TIMED_OUT \<and>
         snd (tr ! i) = snd (tr ! k) \<and> in_window period (fst (tr ! k)) (fst (tr ! i)))"
    by (simp add: run cong: conj_cong)
next
  show "fst (check_packets hash_fn (Dedup_new 100) [(0, p), (50, p), (200, p)]) =
     [NEW_PACKET_OR_TIMED_OUT, ALREADY_EXISTS_IN_BUFFER, NEW_PACKET_OR_TIMED_OUT]"
    by (simp add: Dedup_check_packet_def DedupImpl_check_packet_def Dedup_new_def DedupImpl_new_def Let_def)
qed

lemmas dedup_eval = Dedup_check_packet_def DedupImpl_check_packet_def Dedup_new_def
  DedupImpl_new_def byte_sum_hash_def Let_def

text \<open>
  The theorem at a concrete run: a payload inserted at time 0 is still present at time 100,
  the closed end of the window.
\<close>

theorem dedup_window_closed_witness:
  "(100 :: time_t) \<noteq> 0 \<and>
   clock_ok 100 (map fst [(0, [1 :: 8 word]), (100, [1]), (150, [2]), (201, [1])]) \<and>
   inj_on byte_sum_hash (snd ` set [(0 :: time_t, [1]), (100, [1]), (150, [2]), (201, [1])]) \<and>
   (1 :: nat) < length [(0 :: time_t, [1 :: 8 word]), (100, [1]), (150, [2]), (201, [1])] \<and>
   fst (check_packets byte_sum_hash (Dedup_new 100) [(0, [1]), (100, [1]), (150, [2]), (201, [1])]) ! 1
     = ALREADY_EXISTS_IN_BUFFER \<and>
   in_window 100 100 0"
proof -
  let ?tr = "[(0 :: time_t, [1 :: 8 word]), (100, [1]), (150, [2]), (201, [1])]"
  have h1: "(100 :: time_t) \<noteq> 0" by simp
  have h2: "clock_ok 100 (map fst ?tr)" by (simp add: clock_ok_def)
  have h3: "inj_on byte_sum_hash (snd ` set ?tr)" by (auto simp: inj_on_def byte_sum_hash_def)
  have h4: "(1 :: nat) < length ?tr" by simp
  have w: "in_window 100 100 0" by (simp add: in_window_def)
  have new0: "fst (check_packets byte_sum_hash (Dedup_new 100) ?tr) ! 0 = NEW_PACKET_OR_TIMED_OUT"
    by (simp add: dedup_eval)
  from dedup_window_closed [of 100 ?tr byte_sum_hash 1] h1 h2 h3 h4
  have "(fst (check_packets byte_sum_hash (Dedup_new 100) ?tr) ! 1 = ALREADY_EXISTS_IN_BUFFER) =
     (\<exists>i < 1. fst (check_packets byte_sum_hash (Dedup_new 100) ?tr) ! i = NEW_PACKET_OR_TIMED_OUT \<and>
         snd (?tr ! i) = snd (?tr ! 1) \<and> in_window 100 (fst (?tr ! 1)) (fst (?tr ! i)))"
    by blast
  moreover have "\<exists>i < 1. fst (check_packets byte_sum_hash (Dedup_new 100) ?tr) ! i = NEW_PACKET_OR_TIMED_OUT \<and>
         snd (?tr ! i) = snd (?tr ! 1) \<and> in_window 100 (fst (?tr ! 1)) (fst (?tr ! i))"
    using new0 w by simp
  ultimately have "fst (check_packets byte_sum_hash (Dedup_new 100) ?tr) ! 1 = ALREADY_EXISTS_IN_BUFFER"
    by simp
  with h1 h2 h3 h4 w show ?thesis by blast
qed

text \<open>
  Claim C5 as stated, with the half-open window \<open>(t - period, t]\<close>, fails: with a period of
  100 ms the check at time 100 answers Duplicate, although the only insertion, at time 0,
  is not later than \<open>100 - 100\<close>.
\<close>

theorem dedup_half_open_counterexample:
  "fst (check_packets byte_sum_hash (Dedup_new 100) [(0, [1]), (100, [1])]) =
     [NEW_PACKET_OR_TIMED_OUT, ALREADY_EXISTS_IN_BUFFER] \<and>
   \<not> (int (unat (100 :: time_t)) - int (unat (100 :: time_t)) < int (unat (0 :: time_t)))"
  by (simp add: dedup_eval)

text \<open>
  Claim C10 as it stands fails on the 32-bit millisecond clock of \<^verbatim>\<open>check_packet\<close>. With a
  period of 100 ms, a payload inserted at the reading 4294967146 and checked again 200 ms
  later, when the 32-bit reading has wrapped to 50, is not evicted (50 is not greater than
  4294967246) and answers Duplicate, although it is checked more than a period after its
  insertion.
\<close>

theorem duplicate_after_clock_wrap_counterexample:
  "(4294967146 :: time_t) + 200 = 50 \<and>
   unat (100 :: time_t) < 200 \<and>
   fst (check_packets byte_sum_hash (Dedup_new 100) [(4294967146, [1]), (50, [1])]) =
     [NEW_PACKET_OR_TIMED_OUT, ALREADY_EXISTS_IN_BUFFER]"
  by (simp add: dedup_eval)

text \<open>
  Claim C10, as amended. A Duplicate answer does not refresh the window, as long as the
  32-bit clock does not wrap. Let the readings up to the last check be non-decreasing with
  reading plus period below \<open>2 ^ 32\<close>, and let the last reading \<open>t\<close> be no smaller than
  any of them. Let payload \<open>p\<close> be inserted at time \<open>t0\<close> (after any earlier checks \<open>pre\<close>),
  let every intervening check of \<open>p\<close> (or of a payload with the hash of \<open>p\<close>) fall within
  \<open>period\<close> ms of \<open>t0\<close>, other payloads being checked at any time, and let \<open>p\<close> be checked
  again at a time \<open>t\<close> more than \<open>period\<close> ms after \<open>t0\<close>. Then this last check answers New,
  although every intervening check of \<open>p\<close> answered Duplicate. (The comment of
  \<^verbatim>\<open>Dedup::check_packet\<close> in dedup.h says that a known hash value resets the time for that
  value; \<^verbatim>\<open>DedupImpl::check_packet\<close> pushes a new time only for a hash that is not in the
  set, which is what is proved here.)
\<close>

theorem duplicate_does_not_refresh:
  assumes P: "period \<noteq> 0"
    and ok: "clock_ok period (map fst (pre @ (t0, p) # mids))"
    and le: "\<forall>x \<in> set (map fst (pre @ (t0, p) # mids)). x \<le> t"
    and rs: "rs = fst (check_packets hash_fn (Dedup_new period) (pre @ (t0, p) # mids @ [(t, p)]))"
    and new: "rs ! length pre = NEW_PACKET_OR_TIMED_OUT"
    and win: "\<forall>m \<in> set mids. hash_fn (snd m) = hash_fn p \<longrightarrow> unat (fst m) \<le> unat t0 + unat period"
    and late: "unat t0 + unat period < unat t"
  shows "rs ! (length pre + 1 + length mids) = NEW_PACKET_OR_TIMED_OUT \<and>
         (\<forall>j < length mids. hash_fn (snd (mids ! j)) = hash_fn p \<longrightarrow>
              rs ! (length pre + 1 + j) = ALREADY_EXISTS_IN_BUFFER)"
proof -
  let ?tr = "pre @ (t0, p) # mids"
  let ?n = "length pre"
  obtain rs0 d0 where run: "check_packets hash_fn (Dedup_new period) ?tr = (rs0, d0)"
    by (cases "check_packets hash_fn (Dedup_new period) ?tr")
  define r where "r = fst (Dedup_check_packet hash_fn t p d0)"
  have tr: "pre @ (t0, p) # mids @ [(t, p)] = ?tr @ [(t, p)]" by simp
  have rs_eq: "rs = rs0 @ [r]"
    unfolding rs tr check_packets_snoc run r_def by (simp add: split_beta)
  note inv0 = check_packets_char [OF P ok run, THEN conjunct1]
  note ch = check_packets_char [OF P ok run, THEN conjunct2, rule_format]
  from inv0 have len: "length rs0 = length ?tr" by (simp add: cache_inv_def)
  have n: "?tr ! ?n = (t0, p)" by simp
  have mid: "?tr ! (?n + 1 + j) = mids ! j" if "j < length mids" for j
    using that by (simp add: nth_append)
  have pre0: "rs ! i = rs0 ! i" if "i < length ?tr" for i
    using that len by (simp add: rs_eq nth_append)
  have fin: "rs ! (?n + 1 + length mids) = r"
    using len by (simp add: rs_eq nth_append)
  from new have new0: "rs0 ! ?n = NEW_PACKET_OR_TIMED_OUT"
    using pre0 [of ?n] by simp
  from ok have srt: "sorted (map fst ?tr)" by (simp add: clock_ok_def)
  have mono: "unat (fst (?tr ! i)) \<le> unat (fst (?tr ! j))" if "i \<le> j" "j < length ?tr" for i j
  proof -
    from that have li: "i < length ?tr" and lj: "j < length ?tr" by simp_all
    have "map fst ?tr ! i \<le> map fst ?tr ! j"
      by (rule sorted_nth_mono [OF srt]) (use that in simp_all)
    then have "fst (?tr ! i) \<le> fst (?tr ! j)"
      by (simp only: nth_map [OF li] nth_map [OF lj])
    then show ?thesis by (simp add: word_le_nat_alt)
  qed
  have dup0: "rs0 ! (?n + 1 + j) = ALREADY_EXISTS_IN_BUFFER"
    if j: "j < length mids" and h: "hash_fn (snd (mids ! j)) = hash_fn p" for j
  proof -
    from j have k: "?n + 1 + j < length ?tr" by simp
    from j h win have "unat (fst (mids ! j)) \<le> unat t0 + unat period" by simp
    moreover have "unat t0 \<le> unat (fst (mids ! j))"
      using mono [of ?n "?n + 1 + j"] k by (simp only: n mid [OF j]) simp
    ultimately have "in_window period (fst (?tr ! (?n + 1 + j))) (fst (?tr ! ?n))"
      by (simp only: n mid [OF j]) (simp add: in_window_def)
    moreover have "hash_fn (snd (?tr ! ?n)) = hash_fn (snd (?tr ! (?n + 1 + j)))"
      using h by (simp only: n mid [OF j]) simp
    ultimately have "\<exists>i < ?n + 1 + j. rs0 ! i = NEW_PACKET_OR_TIMED_OUT \<and>
        hash_fn (snd (?tr ! i)) = hash_fn (snd (?tr ! (?n + 1 + j))) \<and>
        in_window period (fst (?tr ! (?n + 1 + j))) (fst (?tr ! i))"
      using new0 by (intro exI [of _ ?n]) simp
    with ch [OF k] show ?thesis by simp
  qed
  have dup: "rs ! (?n + 1 + j) = ALREADY_EXISTS_IN_BUFFER"
    if j: "j < length mids" and h: "hash_fn (snd (mids ! j)) = hash_fn p" for j
  proof -
    from j have k: "?n + 1 + j < length ?tr" by simp
    from pre0 [OF k] dup0 [OF j h] show ?thesis by simp
  qed
  have last: "(r = ALREADY_EXISTS_IN_BUFFER) =
      (\<exists>i < length ?tr. rs0 ! i = NEW_PACKET_OR_TIMED_OUT \<and> hash_fn (snd (?tr ! i)) = hash_fn p \<and>
          in_window period t (fst (?tr ! i)))"
    unfolding r_def
    using Dedup_check_packet_answer [OF inv0 P ok le, of p]
      inserted_retained_index [OF len ok le, of hash_fn "hash_fn p"]
    by simp
  have "r \<noteq> ALREADY_EXISTS_IN_BUFFER"
  proof
    assume "r = ALREADY_EXISTS_IN_BUFFER"
    with last obtain i where i: "i < length ?tr"
      and inew: "rs0 ! i = NEW_PACKET_OR_TIMED_OUT"
      and ih: "hash_fn (snd (?tr ! i)) = hash_fn p"
      and iw: "in_window period t (fst (?tr ! i))"
      by blast
    from iw have iw': "unat t \<le> unat (fst (?tr ! i)) + unat period"
      by (simp add: in_window_def)
    show False
    proof (cases "i \<le> ?n")
      case True
      have "unat (fst (?tr ! i)) \<le> unat (fst (?tr ! ?n))"
        using mono [of i ?n] True by simp
      then have "unat (fst (?tr ! i)) \<le> unat t0" by (simp only: n) simp
      with iw' late show False by simp
    next
      case False
      with i have "i - (?n + 1) < length mids" and "i = ?n + 1 + (i - (?n + 1))"
        by simp_all
      then obtain j where j: "j < length mids" and ij: "i = ?n + 1 + j"
        by blast
      from ih have "hash_fn (snd (mids ! j)) = hash_fn p"
        by (simp only: ij mid [OF j])
      from dup0 [OF j this] inew show False by (simp add: ij)
    qed
  qed
  then have "r = NEW_PACKET_OR_TIMED_OUT"
    by (cases r) simp_all
  with dup fin show ?thesis by simp
qed

text \<open>
  The theorem at a concrete run: \<open>p\<close> inserted at 10, checked again at 60 and 110 (both
  Duplicate), another payload checked at 111, and \<open>p\<close> again at 112, where it is New. And
  with a period of \<open>2 ^ 31\<close> ms: \<open>p\<close> inserted at 0 and checked at \<open>2 ^ 31 + 1\<close> is New.
\<close>

theorem duplicate_does_not_refresh_witness:
  "(100 :: time_t) \<noteq> 0 \<and>
   clock_ok 100 (map fst ([(0, [2])] @ (10, [1 :: 8 word]) # [(60, [1]), (110, [1]), (111, [2])])) \<and>
   (0 :: time_t) \<le> 112 \<and> (10 :: time_t) \<le> 112 \<and> (60 :: time_t) \<le> 112 \<and>
   (110 :: time_t) \<le> 112 \<and> (111 :: time_t) \<le> 112 \<and>
   unat (60 :: time_t) \<le> unat (10 :: time_t) + unat (100 :: time_t) \<and>
   unat (110 :: time_t) \<le> unat (10 :: time_t) + unat (100 :: time_t) \<and>
   byte_sum_hash [2] \<noteq> byte_sum_hash [1] \<and>
   unat (10 :: time_t) + unat (100 :: time_t) < unat (112 :: time_t) \<and>
   fst (check_packets byte_sum_hash (Dedup_new 100)
          ([(0, [2])] @ (10, [1]) # [(60, [1]), (110, [1]), (111, [2])] @ [(112, [1])])) ! 1
     = NEW_PACKET_OR_TIMED_OUT \<and>
   fst (check_packets byte_sum_hash (Dedup_new 100)
          ([(0, [2])] @ (10, [1]) # [(60, [1]), (110, [1]), (111, [2])] @ [(112, [1])])) ! 2
     = ALREADY_EXISTS_IN_BUFFER \<and>
   fst (check_packets byte_sum_hash (Dedup_new 100)
          ([(0, [2])] @ (10, [1]) # [(60, [1]), (110, [1]), (111, [2])] @ [(112, [1])])) ! 3
     = ALREADY_EXISTS_IN_BUFFER \<and>
   fst (check_packets byte_sum_hash (Dedup_new 100)
          ([(0, [2])] @ (10, [1]) # [(60, [1]), (110, [1]), (111, [2])] @ [(112, [1])])) ! 5
     = NEW_PACKET_OR_TIMED_OUT \<and>
   (2147483648 :: time_t) \<noteq> 0 \<and>
   clock_ok 2147483648 (map fst ([] @ (0, [1 :: 8 word]) # [])) \<and>
   (0 :: time_t) \<le> 2147483649 \<and>
   unat (0 :: time_t) + unat (2147483648 :: time_t) < unat (2147483649 :: time_t) \<and>
   fst (check_packets byte_sum_hash (Dedup_new 2147483648)
          ([] @ (0, [1]) # [] @ [(2147483649, [1])])) ! 0
     = NEW_PACKET_OR_TIMED_OUT \<and>
   fst (check_packets byte_sum_hash (Dedup_new 2147483648)
          ([] @ (0, [1]) # [] @ [(2147483649, [1])])) ! 1
     = NEW_PACKET_OR_TIMED_OUT"
proof -
  let ?pre = "[(0 :: time_t, [2 :: 8 word])]"
  let ?mids = "[(60 :: time_t, [1 :: 8 word]), (110, [1]), (111, [2])]"
  let ?tr = "?pre @ (10, [1]) # ?mids @ [(112, [1])]"
  define rs where "rs = fst (check_packets byte_sum_hash (Dedup_new 100) ?tr)"
  have h1: "(100 :: time_t) \<noteq> 0" by simp
  have h2: "clock_ok 100 (map fst (?pre @ (10, [1]) # ?mids))" by (simp add: clock_ok_def)
  have h3: "\<forall>x \<in> set (map fst (?pre @ (10, [1]) # ?mids)). x \<le> (112 :: time_t)" by simp
  have h4: "rs ! length ?pre = NEW_PACKET_OR_TIMED_OUT" by (simp add: rs_def dedup_eval)
  have hh: "byte_sum_hash [2] \<noteq> byte_sum_hash [1]" by (simp add: byte_sum_hash_def)
  have h5: "\<forall>m \<in> set ?mids. byte_sum_hash (snd m) = byte_sum_hash [1] \<longrightarrow>
      unat (fst m) \<le> unat (10 :: time_t) + unat (100 :: time_t)"
    using hh by simp
  have h6: "unat (10 :: time_t) + unat (100 :: time_t) < unat (112 :: time_t)" by simp
  note th = duplicate_does_not_refresh [OF h1 h2 h3 rs_def h4 h5 h6]
  have n5: "length ?pre + 1 + length ?mids = 5" and n2: "length ?pre + 1 + 0 = 2"
    and n3: "length ?pre + 1 + 1 = 3" by simp_all
  have c1: "rs ! 5 = NEW_PACKET_OR_TIMED_OUT"
    using th [THEN conjunct1] by (simp only: n5)
  have "rs ! (length ?pre + 1 + 0) = ALREADY_EXISTS_IN_BUFFER"
    by (rule th [THEN conjunct2, rule_format, of 0]) (simp_all add: byte_sum_hash_def)
  then have c2: "rs ! 2 = ALREADY_EXISTS_IN_BUFFER" by (simp only: n2)
  have "rs ! (length ?pre + 1 + 1) = ALREADY_EXISTS_IN_BUFFER"
    by (rule th [THEN conjunct2, rule_format, of 1]) (simp_all add: byte_sum_hash_def)
  then have c3: "rs ! 3 = ALREADY_EXISTS_IN_BUFFER" by (simp only: n3)
  from h4 have h4': "rs ! 1 = NEW_PACKET_OR_TIMED_OUT" by simp
  have u1: "unat (60 :: time_t) \<le> unat (10 :: time_t) + unat (100 :: time_t)"
    and u2: "unat (110 :: time_t) \<le> unat (10 :: time_t) + unat (100 :: time_t)" by simp_all
  have l: "(0 :: time_t) \<le> 112" "(10 :: time_t) \<le> 112" "(60 :: time_t) \<le> 112"
    "(110 :: time_t) \<le> 112" "(111 :: time_t) \<le> 112" by simp_all
  let ?pre2 = "[] :: (time_t \<times> payload) list"
  let ?tr2 = "?pre2 @ (0, [1]) # ?pre2 @ [(2147483649, [1])]"
  define rs2 where "rs2 = fst (check_packets byte_sum_hash (Dedup_new 2147483648) ?tr2)"
  have g1: "(2147483648 :: time_t) \<noteq> 0" by simp
  have g2: "clock_ok 2147483648 (map fst (?pre2 @ (0, [1 :: 8 word]) # ?pre2))"
    by (simp add: clock_ok_def)
  have g3: "\<forall>x \<in> set (map fst (?pre2 @ (0, [1 :: 8 word]) # ?pre2)). x \<le> (2147483649 :: time_t)"
    by simp
  have g3': "(0 :: time_t) \<le> 2147483649" by simp
  have g4: "rs2 ! length ?pre2 = NEW_PACKET_OR_TIMED_OUT" by (simp add: rs2_def dedup_eval)
  have g5: "\<forall>m \<in> set ?pre2. byte_sum_hash (snd m) = byte_sum_hash [1] \<longrightarrow>
      unat (fst m) \<le> unat (0 :: time_t) + unat (2147483648 :: time_t)"
    by simp
  have g6: "unat (0 :: time_t) + unat (2147483648 :: time_t) < unat (2147483649 :: time_t)"
    by simp
  note th2 = duplicate_does_not_refresh [OF g1 g2 g3 rs2_def g4 g5 g6]
  have d1: "rs2 ! 1 = NEW_PACKET_OR_TIMED_OUT"
    using th2 [THEN conjunct1] by simp
  from g4 have g4': "rs2 ! 0 = NEW_PACKET_OR_TIMED_OUT" by simp
  show ?thesis
    by (intro conjI h1 h2 l u1 u2 hh h6 h4' [unfolded rs_def] c1 [unfolded rs_def]
        c2 [unfolded rs_def] c3 [unfolded rs_def] g1 g2 g3' g6 g4' [unfolded rs2_def]
        d1 [unfolded rs2_def])
qed

section \<open>Router instance: proofs\<close>

lemma written_append: "written (fx @ gx) = written fx @ written gx"
  by (induction fx rule: written.induct) simp_all

lemma written_write_msg: "written (snd (Mainloop_write_msg wr i e buf)) = [i]"
  by (simp add: Mainloop_write_msg_def Let_def)

lemma route_endpoints_written:
  "written (rs_effects (route_endpoints acc wr buf i es s)) =
     written (rs_effects s) @
     map (\<lambda>j. i + j) (filter (\<lambda>j. acc (es ! j) buf = Accepted) [0..<length es])"
proof (induction es arbitrary: i s)
  case Nil
  then show ?case by simp
next
  case (Cons e es)
  have shift: "filter (\<lambda>j. acc ((e # es) ! j) buf = Accepted) [0..<length (e # es)] =
      (if acc e buf = Accepted then [0] else []) @
      map Suc (filter (\<lambda>j. acc (es ! j) buf = Accepted) [0..<length es])"
  proof -
    have "[0..<length (e # es)] = 0 # map Suc [0..<length es]"
      by (simp add: upt_conv_Cons map_Suc_upt del: upt_Suc)
    then show ?thesis by (simp add: filter_map comp_def)
  qed
  show ?case
    unfolding shift
    by (cases "acc e buf")
      (simp_all add: Cons.IH written_append Mainloop_write_msg_def Let_def comp_def
        split: prod.splits)
qed

lemma route_endpoints_unknown:
  "rs_unknown (route_endpoints acc wr buf i es s) =
     (rs_unknown s \<and> (\<forall>e \<in> set es. acc e buf = Rejected))"
proof (induction es arbitrary: i s)
  case Nil
  then show ?case by simp
next
  case (Cons e es)
  show ?case
    by (cases "acc e buf") (auto simp: Cons.IH split: prod.splits)
qed

text \<open>
  Claim C1. For every frame passed to \<^verbatim>\<open>route_msg\<close>, the endpoints whose \<^verbatim>\<open>write_msg\<close> is
  called are exactly the endpoints of the router's list whose \<^verbatim>\<open>accept_msg\<close> returned
  \<^verbatim>\<open>Accepted\<close>, each once and in list order; the number of writes is the number of
  \<^verbatim>\<open>Accepted\<close> answers, so an endpoint that answered \<^verbatim>\<open>Filtered\<close> or \<^verbatim>\<open>Rejected\<close> gets no
  write.
\<close>

theorem route_msg_writes_exactly_accepting:
  "written (snd (route_msg acc wr buf m)) = accepting acc buf (g_endpoints m) \<and>
   length (written (snd (route_msg acc wr buf m))) =
     count_list (map (\<lambda>e. acc e buf) (g_endpoints m)) Accepted"
proof -
  have w: "written (snd (route_msg acc wr buf m)) = accepting acc buf (g_endpoints m)"
    by (simp add: route_msg_def Let_def route_endpoints_written accepting_def)
  have "length (filter (\<lambda>j. acc (es ! j) buf = Accepted) [0..<length es]) =
        count_list (map (\<lambda>e. acc e buf) es) Accepted" for es
  proof (induction es rule: rev_induct)
    case Nil
    then show ?case by simp
  next
    case (snoc e es)
    have "filter (\<lambda>j. acc ((es @ [e]) ! j) buf = Accepted) [0..<length es] =
          filter (\<lambda>j. acc (es ! j) buf = Accepted) [0..<length es]"
      by (rule filter_cong) (simp_all add: nth_append)
    with snoc show ?case by (simp add: nth_append)
  qed
  with w show ?thesis by (simp add: accepting_def)
qed

text \<open>
  Claim C4, as amended. \<^verbatim>\<open>route_msg\<close> increments \<^verbatim>\<open>msg_to_unknown\<close> by one (a 32-bit
  counter) exactly when every endpoint answered \<^verbatim>\<open>Rejected\<close>, that is when no endpoint
  answered \<^verbatim>\<open>Accepted\<close> and none answered \<^verbatim>\<open>Filtered\<close>; otherwise the counter is unchanged.
\<close>

theorem route_msg_unknown_counter:
  "msg_to_unknown (fst (route_msg acc wr buf m)) =
     (if list_all (\<lambda>e. acc e buf = Rejected) (g_endpoints m)
      then msg_to_unknown m + 1 else msg_to_unknown m)"
  by (simp add: route_msg_def Let_def route_endpoints_unknown list_all_iff)

text \<open>
  Claim C4 as stated fails: with a single endpoint that answers \<^verbatim>\<open>Filtered\<close>, no endpoint
  accepted the frame, and the counter is unchanged.
\<close>

theorem route_msg_filtered_counterexample:
  "accepting (\<lambda>e b. Filtered) () (g_endpoints (Mainloop_new\<lparr>g_endpoints := [make_endpoint ''A'' []]\<rparr>)) = [] \<and>
   msg_to_unknown (fst (route_msg (\<lambda>e b. Filtered) (\<lambda>e b. 0) ()
       (Mainloop_new\<lparr>g_endpoints := [make_endpoint ''A'' []]\<rparr>)))
     = msg_to_unknown (Mainloop_new\<lparr>g_endpoints := [make_endpoint ''A'' []]\<rparr>)"
  by (simp add: accepting_def route_msg_def Let_def Mainloop_new_def)

text \<open>
  Claim C9 on the code. The claim says that endpoints are linked only when they carry the
  same non-empty group tag. \<^verbatim>\<open>add_endpoints\<close> on two UDP endpoints with the different tags
  \<open>g1\<close> and \<open>g2\<close> links each to the other.
\<close>

theorem add_endpoints_links_across_groups:
  "map ep_group_name (g_endpoints (snd (add_endpoints (\<lambda>c. None) udp_setup_ok (\<lambda>c. None) (- 1) []
        two_group_config (Mainloop_new\<lparr>epollfd := 5\<rparr>)))) = [''g1'', ''g2''] \<and>
   map ep_group_members (g_endpoints (snd (add_endpoints (\<lambda>c. None) udp_setup_ok (\<lambda>c. None) (- 1) []
        two_group_config (Mainloop_new\<lparr>epollfd := 5\<rparr>)))) = [[1], [0]]"
  by (simp add: add_endpoints_def two_group_config_def Configuration_empty_def udp_setup_ok_def
      make_endpoint_def Mainloop_new_def track_fd_def link_grouped_endpoints_def
      linked_positions_def Let_def upt_conv_Cons)

lemma loop_while_exit: "should_exit m \<Longrightarrow> loop_while ws m = Some m"
  by (cases ws) simp_all

lemma track_fd_fields [simp]:
  "should_exit (track_fd fd d m) = should_exit m" "retcode (track_fd fd d m) = retcode m"
  "epollfd (track_fd fd d m) = epollfd m"
  by (simp_all add: track_fd_def)

lemma Mainloop_loop_exit:
  "should_exit m \<Longrightarrow> 0 \<le> epollfd m \<Longrightarrow> map_option fst (Mainloop_loop tfd ws m) = Some (retcode m)"
  by (simp add: Mainloop_loop_def add_timeout_def loop_while_exit)

text \<open>
  Claim C2. \<^verbatim>\<open>request_exit(retcode)\<close> called on the instance at address \<open>this\<close> leaves the
  instance at every other address as it was, in every field. On the called instance it
  changes the stored retcode and the exit flag and nothing else. The event loop of the
  called instance then ends at its next test of the flag, with the stored retcode, and
  \<^verbatim>\<open>loop()\<close> on the called instance (open, so that \<^verbatim>\<open>loop()\<close> does not refuse it) returns
  the stored retcode, whatever \<^verbatim>\<open>epoll_wait\<close> would have delivered.
\<close>

theorem request_exit_only_this_instance:
  "(\<forall>b. b \<noteq> this \<longrightarrow> request_exit this rc h b = h b) \<and>
   (\<forall>m. h this = Some m \<longrightarrow>
      request_exit this rc h this = Some (m\<lparr>retcode := rc, should_exit := True\<rparr>) \<and>
      (\<forall>ws. map_option retcode (loop_while ws (m\<lparr>retcode := rc, should_exit := True\<rparr>)) = Some rc) \<and>
      (0 \<le> epollfd m \<longrightarrow>
         (\<forall>tfd ws. map_option fst (loop_at this tfd ws (request_exit this rc h)) = Some rc)))"
proof (intro conjI allI impI)
  fix b assume "b \<noteq> this"
  then show "request_exit this rc h b = h b"
    by (simp add: request_exit_def split: option.splits)
next
  fix m assume m: "h this = Some m"
  then show "request_exit this rc h this = Some (m\<lparr>retcode := rc, should_exit := True\<rparr>)"
    by (simp add: request_exit_def Mainloop_request_exit_def)
next
  fix m ws assume "h this = Some m"
  show "map_option retcode (loop_while ws (m\<lparr>retcode := rc, should_exit := True\<rparr>)) = Some rc"
    by (simp add: loop_while_exit)
next
  fix m tfd ws assume m: "h this = Some m" and e: "0 \<le> epollfd m"
  let ?m' = "Mainloop_request_exit rc m"
  have h': "request_exit this rc h this = Some ?m'"
    using m by (simp add: request_exit_def)
  have "map_option fst (Mainloop_loop tfd ws ?m') = Some (retcode ?m')"
    by (rule Mainloop_loop_exit) (use e in \<open>simp_all add: Mainloop_request_exit_def\<close>)
  then obtain m'' where "Mainloop_loop tfd ws ?m' = Some (rc, m'')"
    by (auto simp: Mainloop_request_exit_def)
  then show "map_option fst (loop_at this tfd ws (request_exit this rc h)) = Some rc"
    by (simp add: loop_at_def h')
qed

text \<open>
  The theorem on a process with the singleton and one extension instance: the exit request
  on the extension leaves the singleton untouched, and the extension's loop returns 0.
\<close>

theorem request_exit_only_this_instance_witness:
  "primary \<noteq> (1 :: addr) \<and>
   two_instances 1 = Some (Mainloop_new\<lparr>epollfd := 4\<rparr>) \<and>
   0 \<le> epollfd (Mainloop_new\<lparr>epollfd := 4\<rparr>) \<and>
   request_exit 1 0 two_instances primary = Some (Mainloop_new\<lparr>epollfd := 3\<rparr>) \<and>
   request_exit 1 0 two_instances 1 = Some (Mainloop_new\<lparr>epollfd := 4, retcode := 0, should_exit := True\<rparr>) \<and>
   map_option fst (loop_at 1 9 [TimedOut, Ready [Pollable \<lparr>ev_in = True, ev_out = False, ev_err = True,
       read_failed_invalid = False, is_critical = True, is_uart = False\<rparr>]]
       (request_exit 1 0 two_instances)) = Some 0"
proof -
  let ?m = "Mainloop_new\<lparr>epollfd := 4\<rparr>"
  have a: "primary \<noteq> (1 :: addr)" by (simp add: primary_def)
  have b: "two_instances 1 = Some ?m" by (simp add: two_instances_def primary_def)
  have c: "0 \<le> epollfd ?m" by simp
  note th = request_exit_only_this_instance [of 1 0 two_instances]
  from th a have "request_exit 1 0 two_instances primary = two_instances primary" by blast
  then have d: "request_exit 1 0 two_instances primary = Some (Mainloop_new\<lparr>epollfd := 3\<rparr>)"
    by (simp add: two_instances_def primary_def)
  from th b have "request_exit 1 0 two_instances 1 = Some (?m\<lparr>retcode := 0, should_exit := True\<rparr>)"
    by blast
  then have e: "request_exit 1 0 two_instances 1 =
      Some (Mainloop_new\<lparr>epollfd := 4, retcode := 0, should_exit := True\<rparr>)"
    by simp
  from th b c have f: "map_option fst (loop_at 1 9 [TimedOut, Ready [Pollable \<lparr>ev_in = True, ev_out = False, ev_err = True,
       read_failed_invalid = False, is_critical = True, is_uart = False\<rparr>]]
       (request_exit 1 0 two_instances)) = Some 0"
    by blast
  from a b c d e f show ?thesis by blast
qed

section \<open>Controller: proofs\<close>

lemma map_of_map_put: "map_of (map_put k v xs) k = Some v"
  by (induction xs) auto

lemma map_of_map_put_other: "k' \<noteq> k \<Longrightarrow> map_of (map_put k v xs) k' = map_of xs k'"
  by (induction xs) auto

lemmas rpc_eval = rpc_running_def rpc_initial_def mainloop_restart_callback_def createThread_def
  ThreadManager_new_def registerThread_def tm_registerThread_def tm_log_def Let_def
  stopThread_def startThread_def executeRequest_def getThreadNamesForTarget_def names_for_def
  executeOperationOnThread_def tm_stopThread_def tm_update_def with_thread_state_def
  response_def failed_response_def getThreadStateInfo_def getThreadState_def isThreadAlive_def
  request_exit_def instance_of_thread_def Mainloop_request_exit_def main_callbacks_def

lemma rpc_running_registry:
  "threadRegistry rpc_running = [(''http_server'', 1), (''mainloop'', 2)]"
  by (simp add: rpc_eval)

text \<open>
  Claim C3 on the code. The claim says that a stop of all threads issues no stop to the
  thread named \<^verbatim>\<open>http_server\<close>. With the HTTP server thread (id 1) and the router thread
  (id 2) registered, \<^verbatim>\<open>stopThread(ThreadTarget::ALL)\<close> calls the thread manager's
  \<^verbatim>\<open>stopThread\<close> on id 1 and sets the stop flag of the HTTP server thread: the request is
  expanded into the registered names, and the name \<^verbatim>\<open>http_server\<close> takes the last branch of
  the stop, not the branch that skips it.
\<close>

theorem stop_all_stops_http_server:
  "threadRegistry rpc_running = [(''http_server'', 1), (''mainloop'', 2)] \<and>
   StopThread 1 \<notin> set (tm_calls (threadManager rpc_running)) \<and>
   StopThread 1 \<in> set (tm_calls (threadManager
       (snd (stopThread main_callbacks (\<lambda>tid. True) None ALL_THREADS rpc_running)))) \<and>
   map (\<lambda>p. th_stop_requested (snd p)) (tm_threads (threadManager
       (snd (stopThread main_callbacks (\<lambda>tid. True) None ALL_THREADS rpc_running)))) = [True, False]"
  by (simp add: rpc_eval)

text \<open>
  Claim C8 as stated fails in its first half: with the restart callback registered and the
  thread never started, the operation on the thread yields \<^verbatim>\<open>THREAD_NOT_FOUND\<close>, but the stop
  request itself is answered with \<^verbatim>\<open>FAILED\<close>.
\<close>

theorem stop_unregistered_mainloop_counterexample:
  "map_of (threadRegistry rpc_initial) ''mainloop'' = None \<and>
   restartCallbacks rpc_initial = [''mainloop''] \<and>
   status (fst (executeOperationOnThread main_callbacks (\<lambda>tid. True) None ''mainloop'' STOP rpc_initial))
     = THREAD_NOT_FOUND \<and>
   status (fst (stopThread main_callbacks (\<lambda>tid. True) None MAINLOOP rpc_initial)) = FAILED \<and>
   status (fst (stopThread main_callbacks (\<lambda>tid. True) None MAINLOOP rpc_initial)) \<noteq> THREAD_NOT_FOUND"
  by (simp add: rpc_eval)

lemmas rpc_defs = mainloop_restart_callback_def createThread_def
  registerThread_def tm_registerThread_def tm_log_def Let_def
  stopThread_def startThread_def executeRequest_def getThreadNamesForTarget_def names_for_def
  executeOperationOnThread_def response_def main_callbacks_def

text \<open>
  Claim C8, as amended. When a restart callback is registered for \<^verbatim>\<open>mainloop\<close> and the
  thread is not registered, the stop operation on the thread yields \<^verbatim>\<open>THREAD_NOT_FOUND\<close>
  and the stop request targeting \<^verbatim>\<open>mainloop\<close> is answered with status \<^verbatim>\<open>FAILED\<close>, the
  message naming the thread that was not found, and changes nothing. A start request
  targeting \<^verbatim>\<open>mainloop\<close> then invokes the restart callback, which creates a thread and
  registers its id under the name \<^verbatim>\<open>mainloop\<close>, and is answered with \<^verbatim>\<open>SUCCESS\<close>.
\<close>

theorem restart_callback_scenario:
  assumes unreg: "map_of (threadRegistry w) ''mainloop'' = None"
    and cb: "''mainloop'' \<in> set (restartCallbacks w)"
  shows "executeOperationOnThread main_callbacks joined tls ''mainloop'' STOP w =
           (\<lparr>status = THREAD_NOT_FOUND, message = ''Thread not found: mainloop'', threadStates = []\<rparr>, w) \<and>
         stopThread main_callbacks joined tls MAINLOOP w =
           (\<lparr>status = FAILED, message = ''mainloop: Thread not found: mainloop; '',
             threadStates = []\<rparr>, w) \<and>
         (case startThread main_callbacks joined tls MAINLOOP w of
            (r2, w2) \<Rightarrow>
              status r2 = SUCCESS \<and>
              map_of (threadRegistry w2) ''mainloop'' = Some (tm_next_id (threadManager w)) \<and>
              tm_calls (threadManager w2) =
                tm_calls (threadManager w) @
                  [CreateThread (tm_next_id (threadManager w)),
                   RegisterThread (tm_next_id (threadManager w)) ''mainloop''])"
proof (intro conjI)
  show "executeOperationOnThread main_callbacks joined tls ''mainloop'' STOP w =
           (\<lparr>status = THREAD_NOT_FOUND, message = ''Thread not found: mainloop'', threadStates = []\<rparr>, w)"
    using unreg by (simp add: rpc_defs)
  show "stopThread main_callbacks joined tls MAINLOOP w =
           (\<lparr>status = FAILED, message = ''mainloop: Thread not found: mainloop; '',
             threadStates = []\<rparr>, w)"
    using unreg cb by (simp add: rpc_defs)
  show "case startThread main_callbacks joined tls MAINLOOP w of
            (r2, w2) \<Rightarrow>
              status r2 = SUCCESS \<and>
              map_of (threadRegistry w2) ''mainloop'' = Some (tm_next_id (threadManager w)) \<and>
              tm_calls (threadManager w2) =
                tm_calls (threadManager w) @
                  [CreateThread (tm_next_id (threadManager w)),
                   RegisterThread (tm_next_id (threadManager w)) ''mainloop'']"
    using unreg cb by (simp add: rpc_defs map_of_map_put)
qed

text \<open>The theorem on the controller as \<^verbatim>\<open>main\<close> sets it up.\<close>

theorem restart_callback_scenario_witness:
  "map_of (threadRegistry rpc_initial) ''mainloop'' = None \<and>
   ''mainloop'' \<in> set (restartCallbacks rpc_initial) \<and>
   status (fst (stopThread main_callbacks (\<lambda>tid. True) None MAINLOOP rpc_initial)) = FAILED \<and>
   snd (stopThread main_callbacks (\<lambda>tid. True) None MAINLOOP rpc_initial) = rpc_initial \<and>
   status (fst (startThread main_callbacks (\<lambda>tid. True) None MAINLOOP rpc_initial)) = SUCCESS \<and>
   threadRegistry (snd (startThread main_callbacks (\<lambda>tid. True) None MAINLOOP rpc_initial))
     = [(''mainloop'', 1)]"
proof -
  have a: "map_of (threadRegistry rpc_initial) ''mainloop'' = None"
    by (simp add: rpc_initial_def)
  have b: "''mainloop'' \<in> set (restartCallbacks rpc_initial)"
    by (simp add: rpc_initial_def)
  note th = restart_callback_scenario [OF a b, of "\<lambda>tid. True" None]
  from th have c: "status (fst (stopThread main_callbacks (\<lambda>tid. True) None MAINLOOP rpc_initial)) = FAILED"
    and d: "snd (stopThread main_callbacks (\<lambda>tid. True) None MAINLOOP rpc_initial) = rpc_initial"
    by simp_all
  from th have e: "status (fst (startThread main_callbacks (\<lambda>tid. True) None MAINLOOP rpc_initial)) = SUCCESS"
    by (simp add: case_prod_unfold)
  have f: "threadRegistry (snd (startThread main_callbacks (\<lambda>tid. True) None MAINLOOP rpc_initial))
     = [(''mainloop'', 1)]"
    by (simp add: rpc_eval)
  from a b c d e f show ?thesis by blast
qed

section \<open>Extension manager: proofs\<close>












lemma extensions_saveExtensionConfig [simp]:
  "extensions (saveExtensionConfig name w) = extensions w"
  by (simp add: saveExtensionConfig_def split: option.splits)

lemma extensions_launchExtensionThread [simp]:
  "extensions (snd (launchExtensionThread c w)) = extensions w"
  by (simp add: launchExtensionThread_def split: prod.splits)

lemma validate_assigned [simp]:
  "validateExtensionConfig (c\<lparr>assigned_extension_point := s\<rparr>) = validateExtensionConfig c"
  by (simp add: validateExtensionConfig_def)






lemma globalConfig_saveExtensionConfig [simp]:
  "globalConfig (saveExtensionConfig name w) = globalConfig w"
  by (simp add: saveExtensionConfig_def split: option.splits)






lemmas ext_eval = ext_initial_def primary_config_def udp_point_def ext_request_def
  createExtension_def assignAvailableExtensionPoint_def usedPoints_def validateExtensionConfig_def
  launchExtensionThread_def createThread_def tm_registerThread_def tm_log_def ThreadManager_new_def
  saveExtensionConfig_def getConfigFilePath_def Configuration_empty_def udp_client_def Let_def




lemma tm_calls_tm_update [simp]: "tm_calls (tm_update tid f tm) = tm_calls tm"
  by (simp add: tm_update_def)


subsection \<open>Stopping an extension\<close>












lemma manager_calls_sleeps [simp]: "manager_calls (replicate k (Sleep n) @ es) = manager_calls es"
  by (induction k) simp_all

lemma manager_calls_only_sleeps [simp]: "manager_calls (replicate k (Sleep n)) = []"
  by (induction k) simp_all

lemma manager_calls_map [simp]: "manager_calls (map ManagerCall cs) = cs"
  by (induction cs) simp_all



lemma stopExtension_dangling:
  assumes ex: "map_of (extensions w) name = Some info" and run: "xi_isRunning info"
    and wait: "wait_for_mainloop env name 0 w = (Published p, k, w1)"
    and gone: "ext_mainloops w1 p = None"
  shows "stopExtension env joined name w =
     (Inl (UseAfterFree p), replicate k (Sleep 50) @ [RequestExit p 0], w1)"
  unfolding stopExtension_def
  by (simp only: ex run wait gone option.case if_False not_True_eq_False Let_def wait_result.case
      prod.case simp_thms)









lemma wait_for_mainloop_present:
  "map_of (extensions w) name = Some info \<Longrightarrow> xi_mainloopInstance info = Some p \<Longrightarrow>
   wait_for_mainloop env name 0 w = (Published p, 0, w)"
  by (simp add: wait_for_mainloop.simps [of env name 0 w] maxRetries_def)

lemmas stop_eval = ext_one_def ext_eval extension_thread_publish_def create_extension_instance_def
  fresh_addr_def primary_def publish_during_sleep_def maxRetries_def






text \<open>
  The thread of \<open>x\<close> published its pointer and then ended on its own (its \<^verbatim>\<open>open\<close> failed, say):
  the instance is destroyed, the record still runs and still holds the pointer, and
  \<^verbatim>\<open>stopExtension\<close> calls \<^verbatim>\<open>request_exit\<close> through the dangling pointer.
\<close>

lemma stopExtension_after_thread_cleanup:
  "map_option (\<lambda>i. (xi_isRunning i, xi_mainloopInstance i))
     (map_of (extensions (extension_thread_cleanup (Some 1) (extension_thread_publish ''x'' ext_one)))
        ''x'') = Some (True, Some 1) \<and>
   ext_mainloops (extension_thread_cleanup (Some 1) (extension_thread_publish ''x'' ext_one)) 1 = None \<and>
   stopExtension (\<lambda>k w. w) (ends_when_asked 1) ''x''
       (extension_thread_cleanup (Some 1) (extension_thread_publish ''x'' ext_one)) =
     (Inl (UseAfterFree 1), [RequestExit 1 0],
      extension_thread_cleanup (Some 1) (extension_thread_publish ''x'' ext_one))"
proof -
  let ?w = "extension_thread_cleanup (Some 1) (extension_thread_publish ''x'' ext_one)"
  have rec: "map_option (\<lambda>i. (xi_isRunning i, xi_mainloopInstance i))
     (map_of (extensions ?w) ''x'') = Some (True, Some 1)"
    by (simp add: extension_thread_cleanup_def destroy_extension_instance_def stop_eval)
  then obtain info where ex: "map_of (extensions ?w) ''x'' = Some info"
    and run: "xi_isRunning info" and ptr: "xi_mainloopInstance info = Some 1"
    by auto
  have gone: "ext_mainloops ?w 1 = None"
    by (simp add: extension_thread_cleanup_def destroy_extension_instance_def)
  have wait: "wait_for_mainloop (\<lambda>k w. w) ''x'' 0 ?w = (Published 1, 0, ?w)"
    by (rule wait_for_mainloop_present [OF ex ptr])
  from stopExtension_dangling [OF ex run wait gone, of "ends_when_asked 1"]
  show ?thesis using rec gone by simp
qed



end
